theory Spec2Isabelle
  imports Complex_Main
begin

section \<open>The engine of Expressive Code: configuration, construction, generated styles\<close>

text \<open>
  A shallow embedding of \<^verbatim>\<open>packages/@expressive-code/core/src/common/engine.ts\<close>.

  \<^item> Theme objects and \<^verbatim>\<open>Map\<close> objects are mutable and shared between the configuration,
    the engine, the style variants and the local variables of a method, so they live in
    explicit stores: a \<open>heap\<close> is the list of all theme objects allocated so far, the maps
    of a \<open>State\<close> are the list of all \<^verbatim>\<open>Map<string, string>\<close> objects, and a \<open>ref\<close> is an
    index into one of them. JavaScript has no dangling references, so every reference that
    occurs is below the length of its store.
  \<^item> The content of a \<^verbatim>\<open>Map<string, string>\<close> is an association list in insertion order;
    a real \<^verbatim>\<open>Map\<close> has each key once.
  \<^item> A value of type \<^verbatim>\<open>string | false\<close> is a \<open>string option\<close>, \<open>None\<close> being
    \<^verbatim>\<open>false\<close>; an optional configuration field is an \<open>option\<close>, \<open>None\<close> being
    \<^verbatim>\<open>undefined\<close>.
  \<^item> A rejected promise or a thrown exception is \<open>Inl\<close> of an \<open>error\<close>; the
    \<^verbatim>\<open>async\<close> methods are modelled by the values they resolve to.
  \<^item> \<^verbatim>\<open>themeCssSelector\<close> is code of the caller that \<^verbatim>\<open>getThemeStyles\<close> runs: a call
    of it may throw, and it may change every object it can reach, so it takes a \<open>State\<close> and
    returns its result, or the error it threw, with the \<open>State\<close> it left.
  \<^item> The functions that \<^verbatim>\<open>engine.ts\<close> imports from other modules are the fields of the
    record \<open>Imports\<close>, functions of the types their TypeScript declarations give them.
  \<^item> A \<^verbatim>\<open>number\<close> is a \<open>real\<close>: the only numbers that occur are the configured
    contrast ratio, its default \<^verbatim>\<open>5.5\<close> and the comparison with \<^verbatim>\<open>0\<close>.
\<close>

subsection \<open>Strings\<close>

text \<open>\<^verbatim>\<open>Array.prototype.join\<close> on an array of strings.\<close>

fun join :: "string \<Rightarrow> string list \<Rightarrow> string" where
  "join sep [] = []"
| "join sep [x] = x"
| "join sep (x # y # ys) = x @ sep @ join sep (y # ys)"

text \<open>A string is truthy when it is not empty.\<close>

definition truthy :: "string \<Rightarrow> bool" where
  "truthy s = (s \<noteq> [])"

text \<open>A value of type \<^verbatim>\<open>string | false\<close> is truthy when it is a non-empty string.\<close>

fun truthySelector :: "string option \<Rightarrow> bool" where
  "truthySelector None = False"
| "truthySelector (Some s) = truthy s"

text \<open>The string a template literal prints for a value of type \<^verbatim>\<open>string | false\<close>.\<close>

fun selectorText :: "string option \<Rightarrow> string" where
  "selectorText None = ''false''"
| "selectorText (Some s) = s"

text \<open>The line break and the indentation of the multi-line template literals.\<close>

definition nl :: string where
  "nl = [CHR 0x0A]"

definition tabs :: "nat \<Rightarrow> string" where
  "tabs n = replicate n (CHR 0x09)"

definition quote :: string where
  "quote = [CHR 0x27]"

subsection \<open>Themes, style variants, plugins\<close>

datatype ThemeType = Dark | Light

fun typeName :: "ThemeType \<Rightarrow> string" where
  "typeName Dark = ''dark''"
| "typeName Light = ''light''"

record ExpressiveCodeTheme =
  name :: string
  type :: ThemeType
  colors :: "(string \<times> string) list"

type_synonym ref = nat
type_synonym heap = "ExpressiveCodeTheme list"

text \<open>\<^verbatim>\<open>new ExpressiveCodeTheme(...)\<close>: the new object gets the next free reference.\<close>

definition alloc :: "ExpressiveCodeTheme \<Rightarrow> heap \<Rightarrow> ref \<times> heap" where
  "alloc t h = (length h, h @ [t])"

text \<open>
  Of a style variant the engine reads the theme and the CSS variable declarations, each a
  reference: to a theme object, and to a \<^verbatim>\<open>Map\<close> object.
\<close>

record StyleVariant =
  theme :: ref
  cssVarDeclarations :: ref

type_synonym declarations = "(string \<times> string) list"

text \<open>
  \<open>Error\<close> is \<^verbatim>\<open>new Error(message)\<close>; \<open>TypeError\<close> is what reading the properties of
  \<^verbatim>\<open>undefined\<close> throws.
\<close>

datatype error = TypeError | Error string

text \<open>
  What code of the caller can change while a method of the engine runs: the theme objects,
  the \<^verbatim>\<open>Map\<close> objects, the elements of the arrays \<^verbatim>\<open>this.themes\<close> and
  \<^verbatim>\<open>this.styleVariants\<close> (with the properties of the style variants in it), and the
  variables the caller's functions keep for themselves, which \<open>st_closure\<close> stands for.
  The other properties of the engine that \<^verbatim>\<open>getThemeStyles\<close> reads are declared
  \<^verbatim>\<open>readonly\<close>; they are fields of the record \<open>ExpressiveCodeEngine\<close> below.
\<close>

record State =
  st_heap :: heap
  st_maps :: "declarations list"
  st_themes :: "ref list"
  st_styleVariants :: "StyleVariant list"
  st_closure :: nat

type_synonym StyleOverrides = "(string \<times> string) list"
type_synonym Props = "(string \<times> string) list"
type_synonym ExpressiveCodeLoggerOptions = "(string \<times> string) list"

datatype ExpressiveCodeLogger = ExpressiveCodeLogger "ExpressiveCodeLoggerOptions option"

record ResolverContext =
  cssVar :: "string \<Rightarrow> string option \<Rightarrow> string"
  cssVarName :: "string \<Rightarrow> string"
  ctx_styleVariants :: "StyleVariant list"

text \<open>
  \<^verbatim>\<open>baseStyles\<close> of a plugin is a string or a function of the resolver context; \<open>None\<close>
  is a plugin without the property. The function reads the objects the style variants of the
  context refer to, so it also gets the state.
\<close>

datatype BaseStyles =
  StaticStyles string
| ComputedStyles "ResolverContext \<Rightarrow> State \<Rightarrow> string"

record ExpressiveCodePlugin =
  plugin_name :: string
  baseStyles :: "BaseStyles option"

record PluginStyles =
  pluginName :: string
  styles :: string

text \<open>
  \<^verbatim>\<open>themeCssSelector\<close>: \<^verbatim>\<open>false\<close>, or a function of the theme and the context
  \<^verbatim>\<open>{ styleVariants: this.styleVariants }\<close> that returns a selector or \<^verbatim>\<open>false\<close>, or
  throws. The context holds the array of the engine itself, which is part of the state, so
  the function is given the theme and the state.
\<close>

datatype ThemeCssSelector =
  SelectorFalse
| SelectorFn "ref \<Rightarrow> State \<Rightarrow> (error + string option) \<times> State"

subsection \<open>What engine.ts imports\<close>

text \<open>
  \<^verbatim>\<open>ensureMinSyntaxHighlightingColorContrast\<close>, a method of the theme, changes the theme
  it is called on and may write warnings; it returns the store and the warnings. \<^verbatim>\<open>resolveStyleVariants\<close> returns the style variants and the
  \<^verbatim>\<open>Map\<close> objects it created for them.
\<close>

record Imports =
  githubDark :: ExpressiveCodeTheme
  githubLight :: ExpressiveCodeTheme
  corePlugins :: "ExpressiveCodePlugin list"
  getCssVarName :: "string \<Rightarrow> string"
  resolveStyleSettings ::
    "heap \<Rightarrow> ref \<Rightarrow> nat \<Rightarrow> ExpressiveCodePlugin list \<Rightarrow> StyleOverrides \<Rightarrow> (string \<times> string) list"
  getFirstStaticColor :: "string option \<Rightarrow> string option"
  ensureMinSyntaxHighlightingColorContrast ::
    "real \<Rightarrow> string option \<Rightarrow> ref \<Rightarrow> heap \<Rightarrow> heap \<times> string list"
  resolveStyleVariants ::
    "heap \<Rightarrow> ref list \<Rightarrow> StyleOverrides \<Rightarrow> ExpressiveCodePlugin list \<Rightarrow> (string \<Rightarrow> string)
      \<Rightarrow> StyleVariant list \<times> declarations list"
  getCoreBaseStyles :: "ResolverContext \<Rightarrow> State \<Rightarrow> bool \<Rightarrow> bool \<Rightarrow> bool \<Rightarrow> string"
  getCoreThemeStyles :: "nat \<Rightarrow> string"
  processPluginStyles :: "PluginStyles list \<Rightarrow> string list"
  scopeAndMinifyNestedCss :: "string \<Rightarrow> string"
  wrapInCascadeLayer :: "string \<Rightarrow> string \<Rightarrow> string"

subsection \<open>The engine\<close>

text \<open>
  The properties of the engine as the constructor assigns them. \<open>themes\<close> and
  \<open>styleVariants\<close> are the elements of the two arrays when the constructor returns; the
  methods read the arrays from the state, where the caller's code may have changed them.
\<close>

record ExpressiveCodeEngine =
  themes :: "ref list"
  minSyntaxHighlightingColorContrast :: real
  useDarkModeMediaQuery :: bool
  themeCssRoot :: string
  themeCssSelector :: ThemeCssSelector
  cascadeLayer :: string
  useStyleReset :: bool
  customizeTheme :: "(ref \<Rightarrow> heap \<Rightarrow> ref option \<times> heap) option"
  useThemedScrollbars :: bool
  useThemedSelectionColors :: bool
  styleOverrides :: StyleOverrides
  styleVariants :: "StyleVariant list"
  defaultLocale :: string
  defaultProps :: Props
  plugins :: "ExpressiveCodePlugin list"
  logger :: ExpressiveCodeLogger

text \<open>
  Modelled from the spec: \<^verbatim>\<open>wrapInCascadeLayer\<close> is defined in
  \<^verbatim>\<open>internal/css\<close>, which is not part of the sources at hand. The specification says
  of it: if \<open>layerName\<close> is empty, it returns \<open>cssText\<close> unchanged; otherwise it returns
  \<^verbatim>\<open>@layer <layerName> { <cssText> }\<close>.
\<close>

definition wrapInCascadeLayer_spec :: "string \<Rightarrow> string \<Rightarrow> string" where
  "wrapInCascadeLayer_spec cssText layerName =
     (if layerName = [] then cssText
      else ''@layer '' @ layerName @ '' { '' @ cssText @ '' }'')"

subsection \<open>getThemeStyles\<close>

text \<open>\<^verbatim>\<open>Map.prototype.set\<close>: an existing key keeps its position, a new key goes last.\<close>

fun Map_set :: "string \<Rightarrow> string \<Rightarrow> declarations \<Rightarrow> declarations" where
  "Map_set k v [] = [(k, v)]"
| "Map_set k v ((k', v') # m) = (if k' = k then (k, v) # m else (k', v') # Map_set k v m)"

text \<open>\<^verbatim>\<open>Map.prototype.get\<close>; \<open>None\<close> is \<^verbatim>\<open>undefined\<close>.\<close>

definition Map_get :: "declarations \<Rightarrow> string \<Rightarrow> string option" where
  "Map_get m k = map_of m k"

definition renderDeclarations :: "declarations \<Rightarrow> string" where
  "renderDeclarations declarations =
     join '';'' (map (\<lambda>(varName, varValue). varName @ '':'' @ varValue) declarations)"

text \<open>
  \<^verbatim>\<open>this.themeCssSelector && this.themeCssSelector(theme, { styleVariants: this.styleVariants })\<close>:
  the value of the expression, or the error the function threw, and the state after it.
\<close>

definition callThemeCssSelector ::
  "ExpressiveCodeEngine \<Rightarrow> ref \<Rightarrow> State \<Rightarrow> (error + string option) \<times> State" where
  "callThemeCssSelector e t s =
     (case themeCssSelector e of
        SelectorFalse \<Rightarrow> (Inr None, s)
      | SelectorFn f \<Rightarrow> f t s)"

definition notBaseThemeSelector :: "string option \<Rightarrow> string" where
  "notBaseThemeSelector baseThemeSelector =
     (if truthySelector baseThemeSelector
      then '':not('' @ selectorText baseThemeSelector @ '')'' else [])"

definition baseThemeBlockInsideAlternateThemeRoot ::
  "ExpressiveCodeEngine \<Rightarrow> string option \<Rightarrow> string" where
  "baseThemeBlockInsideAlternateThemeRoot e baseThemeSelector =
     (if truthy (notBaseThemeSelector baseThemeSelector)
      then themeCssRoot e @ notBaseThemeSelector baseThemeSelector @ '' &''
             @ selectorText baseThemeSelector
      else notBaseThemeSelector baseThemeSelector)"

definition baseVarSelectors :: "ExpressiveCodeEngine \<Rightarrow> string option \<Rightarrow> string" where
  "baseVarSelectors e baseThemeSelector =
     join '','' (filter truthy
       [themeCssRoot e, baseThemeBlockInsideAlternateThemeRoot e baseThemeSelector])"

definition baseThemeStyleSelectors :: "ExpressiveCodeEngine \<Rightarrow> string option \<Rightarrow> string" where
  "baseThemeStyleSelectors e baseThemeSelector =
     join '','' (filter truthy
       [''&'', baseThemeBlockInsideAlternateThemeRoot e baseThemeSelector])"

text \<open>
  The first element pushed to \<^verbatim>\<open>themeStyles\<close>: the styles of the base theme, from the
  declarations that the \<^verbatim>\<open>Map\<close> \<^verbatim>\<open>baseVars\<close> holds when it is rendered.
\<close>

definition baseThemeStyles ::
  "Imports \<Rightarrow> ExpressiveCodeEngine \<Rightarrow> declarations \<Rightarrow> string option \<Rightarrow> string" where
  "baseThemeStyles I e baseVars baseThemeSelector =
     scopeAndMinifyNestedCss I
       (nl @ tabs 4 @ baseVarSelectors e baseThemeSelector @ '' {''
        @ nl @ tabs 5 @ renderDeclarations baseVars
        @ nl @ tabs 4 @ ''}''
        @ nl @ tabs 4 @ baseThemeStyleSelectors e baseThemeSelector @ '' {''
        @ nl @ tabs 5 @ getCoreThemeStyles I 0
        @ nl @ tabs 4 @ ''}''
        @ nl @ tabs 3)"

text \<open>
  The \<^verbatim>\<open>forEach\<close> over the declarations of an alternate variant, with \<^verbatim>\<open>diffVars\<close> as
  the accumulator; \<open>computeDiffVars\<close> starts it from the empty map.
\<close>

fun diffVarsLoop :: "declarations \<Rightarrow> declarations \<Rightarrow> declarations \<Rightarrow> declarations" where
  "diffVarsLoop baseVars [] diffVars = diffVars"
| "diffVarsLoop baseVars ((varName, varValue) # rest) diffVars =
     diffVarsLoop baseVars rest
       (if Map_get baseVars varName \<noteq> Some varValue
        then Map_set varName varValue diffVars else diffVars)"

definition computeDiffVars :: "declarations \<Rightarrow> declarations \<Rightarrow> declarations" where
  "computeDiffVars baseVars declarations = diffVarsLoop baseVars declarations []"

record AlternateVariant =
  alt_theme :: ref
  cssVars :: string
  coreStyles :: string

text \<open>
  The loop over \<^verbatim>\<open>styleVariantIndex\<close> from 1. \<open>maps\<close> are the \<^verbatim>\<open>Map\<close> objects as
  they are when the loop runs, \<open>baseVars\<close> is the reference the method holds since its first
  statement, the third argument is the index, the fourth the style variants from that index
  on.
\<close>

fun alternateVariantsFrom ::
  "Imports \<Rightarrow> declarations list \<Rightarrow> ref \<Rightarrow> nat \<Rightarrow> StyleVariant list \<Rightarrow> AlternateVariant list" where
  "alternateVariantsFrom I maps baseVars styleVariantIndex [] = []"
| "alternateVariantsFrom I maps baseVars styleVariantIndex (styleVariant # rest) =
     \<lparr> alt_theme = theme styleVariant,
       cssVars = renderDeclarations
         (computeDiffVars (maps ! baseVars) (maps ! cssVarDeclarations styleVariant)),
       coreStyles = getCoreThemeStyles I styleVariantIndex \<rparr>
     # alternateVariantsFrom I maps baseVars (Suc styleVariantIndex) rest"

definition alternateVariants :: "Imports \<Rightarrow> State \<Rightarrow> ref \<Rightarrow> AlternateVariant list" where
  "alternateVariants I s baseVars =
     alternateVariantsFrom I (st_maps s) baseVars 1 (drop 1 (st_styleVariants s))"

text \<open>\<^verbatim>\<open>baseTheme.type === 'dark' ? 'light' : 'dark'\<close>\<close>

definition altTypeOf :: "ThemeType \<Rightarrow> ThemeType" where
  "altTypeOf baseType = (if baseType = Dark then Light else Dark)"

definition mediaQueryError :: "State \<Rightarrow> error" where
  "mediaQueryError s =
     Error (join '' ''
       [''The config option \"useDarkModeMediaQuery: true\" requires at least'',
        ''one dark and one light theme, but the following themes were given:'',
        join '', ''
          (map (\<lambda>t. name (st_heap s ! t) @ '' ('' @ typeName (type (st_heap s ! t)) @ '')'')
             (st_themes s))])"

definition darkModeMediaQuery ::
  "Imports \<Rightarrow> ExpressiveCodeEngine \<Rightarrow> ThemeType \<Rightarrow> string option \<Rightarrow> AlternateVariant \<Rightarrow> string" where
  "darkModeMediaQuery I e altType baseThemeSelector firstAltVariant =
     scopeAndMinifyNestedCss I
       (nl @ tabs 4 @ ''@media (prefers-color-scheme: '' @ typeName altType @ '') {''
        @ nl @ tabs 5 @ themeCssRoot e @ notBaseThemeSelector baseThemeSelector @ '' {''
        @ nl @ tabs 6 @ cssVars firstAltVariant
        @ nl @ tabs 5 @ ''}''
        @ nl @ tabs 5 @ themeCssRoot e @ notBaseThemeSelector baseThemeSelector @ '' & {''
        @ nl @ tabs 6 @ coreStyles firstAltVariant
        @ nl @ tabs 5 @ ''}''
        @ nl @ tabs 4 @ ''}''
        @ nl @ tabs 3)"

text \<open>
  The block \<^verbatim>\<open>if (this.useDarkModeMediaQuery) { ... }\<close>: what it pushes to
  \<^verbatim>\<open>themeStyles\<close>, or the error it throws. It reads \<^verbatim>\<open>this.styleVariants[0].theme\<close>
  again; when the array has no element by then, that read throws.
\<close>

definition mediaQueryStyles ::
  "Imports \<Rightarrow> ExpressiveCodeEngine \<Rightarrow> State \<Rightarrow> string option \<Rightarrow> AlternateVariant list
     \<Rightarrow> error + string list" where
  "mediaQueryStyles I e s baseThemeSelector alternates =
     (if useDarkModeMediaQuery e
      then (case st_styleVariants s of
              [] \<Rightarrow> Inl TypeError
            | baseVariant # _ \<Rightarrow>
                (let altType = altTypeOf (type (st_heap s ! theme baseVariant))
                 in case find (\<lambda>variant. type (st_heap s ! alt_theme variant) = altType)
                           alternates of
                      None \<Rightarrow> Inl (mediaQueryError s)
                    | Some firstAltVariant \<Rightarrow>
                        Inr [darkModeMediaQuery I e altType baseThemeSelector firstAltVariant]))
      else Inr [])"

definition perThemeBlock ::
  "Imports \<Rightarrow> ExpressiveCodeEngine \<Rightarrow> string option \<Rightarrow> string option \<Rightarrow> AlternateVariant \<Rightarrow> string" where
  "perThemeBlock I e baseThemeSelector themeSelector variant =
     scopeAndMinifyNestedCss I
       (nl @ tabs 6 @ themeCssRoot e @ selectorText themeSelector @ '' &''
          @ notBaseThemeSelector baseThemeSelector @ '', &'' @ selectorText themeSelector @ '' {''
        @ nl @ tabs 7 @ cssVars variant @ '';''
        @ nl @ tabs 7 @ coreStyles variant
        @ nl @ tabs 6 @ ''}''
        @ nl @ tabs 5)"

text \<open>
  The loop \<^verbatim>\<open>for (const { theme, cssVars, coreStyles } of alternateVariants)\<close>: the blocks
  it pushes, or the error of the first selector call that throws, and the state after the
  last call made.
\<close>

fun perThemeLoop ::
  "Imports \<Rightarrow> ExpressiveCodeEngine \<Rightarrow> string option \<Rightarrow> AlternateVariant list \<Rightarrow> State
     \<Rightarrow> (error + string list) \<times> State" where
  "perThemeLoop I e baseThemeSelector [] s = (Inr [], s)"
| "perThemeLoop I e baseThemeSelector (variant # rest) s =
     (case callThemeCssSelector e (alt_theme variant) s of
        (Inl err, s') \<Rightarrow> (Inl err, s')
      | (Inr themeSelector, s') \<Rightarrow>
          (case perThemeLoop I e baseThemeSelector rest s' of
             (Inl err, s'') \<Rightarrow> (Inl err, s'')
           | (Inr blocks, s'') \<Rightarrow>
               (Inr ((if \<not> truthySelector themeSelector then []
                      else [perThemeBlock I e baseThemeSelector themeSelector variant])
                     @ blocks),
                s'')))"

definition perThemeStyles ::
  "Imports \<Rightarrow> ExpressiveCodeEngine \<Rightarrow> string option \<Rightarrow> AlternateVariant list \<Rightarrow> State
     \<Rightarrow> (error + string list) \<times> State" where
  "perThemeStyles I e baseThemeSelector alternates s =
     (case themeCssSelector e of
        SelectorFalse \<Rightarrow> (Inr [], s)
      | SelectorFn _ \<Rightarrow> perThemeLoop I e baseThemeSelector alternates s)"

text \<open>
  The array \<^verbatim>\<open>themeStyles\<close> when the method reaches its \<^verbatim>\<open>return\<close>, or the error
  thrown before, and the state then. With no style variant at all, destructuring
  \<^verbatim>\<open>this.styleVariants[0]\<close> throws a \<^verbatim>\<open>TypeError\<close>. \<^verbatim>\<open>baseVars\<close> and
  \<^verbatim>\<open>baseTheme\<close> are read before the selector is called for the base theme; everything
  else is read after that call.
\<close>

definition themeStyles ::
  "Imports \<Rightarrow> ExpressiveCodeEngine \<Rightarrow> State \<Rightarrow> (error + string list) \<times> State" where
  "themeStyles I e s =
     (case st_styleVariants s of
        [] \<Rightarrow> (Inl TypeError, s)
      | baseVariant # _ \<Rightarrow>
          (let baseVars = cssVarDeclarations baseVariant;
               baseTheme = theme baseVariant
           in case callThemeCssSelector e baseTheme s of
                (Inl err, s1) \<Rightarrow> (Inl err, s1)
              | (Inr baseThemeSelector, s1) \<Rightarrow>
                  (let alternates = alternateVariants I s1 baseVars
                   in case mediaQueryStyles I e s1 baseThemeSelector alternates of
                        Inl err \<Rightarrow> (Inl err, s1)
                      | Inr mediaQuery \<Rightarrow>
                          (case perThemeStyles I e baseThemeSelector alternates s1 of
                             (Inl err, s2) \<Rightarrow> (Inl err, s2)
                           | (Inr blocks, s2) \<Rightarrow>
                               (Inr ([baseThemeStyles I e (st_maps s1 ! baseVars)
                                        baseThemeSelector]
                                     @ mediaQuery @ blocks),
                                s2)))))"

definition getThemeStyles ::
  "Imports \<Rightarrow> ExpressiveCodeEngine \<Rightarrow> State \<Rightarrow> (error + string) \<times> State" where
  "getThemeStyles I e s =
     (case themeStyles I e s of
        (Inl err, s') \<Rightarrow> (Inl err, s')
      | (Inr fragments, s') \<Rightarrow>
          (Inr (wrapInCascadeLayer I (join [] fragments) (cascadeLayer e)), s'))"

subsection \<open>getBaseStyles\<close>

text \<open>The private method \<^verbatim>\<open>cssVar\<close>; a fallback value that is the empty string is dropped.\<close>

definition engine_cssVar :: "Imports \<Rightarrow> string \<Rightarrow> string option \<Rightarrow> string" where
  "engine_cssVar I styleSetting fallbackValue =
     ''var('' @ getCssVarName I styleSetting
       @ (case fallbackValue of
            None \<Rightarrow> []
          | Some v \<Rightarrow> if truthy v then '', '' @ v else [])
       @ '')''"

definition getResolverContext :: "Imports \<Rightarrow> State \<Rightarrow> ResolverContext" where
  "getResolverContext I s =
     \<lparr> cssVar = engine_cssVar I,
       cssVarName = getCssVarName I,
       ctx_styleVariants = st_styleVariants s \<rparr>"

text \<open>
  The loop over the plugins: a plugin without base styles, or whose base styles are or
  resolve to the empty string, adds nothing.
\<close>

fun pluginBaseStyles ::
  "ResolverContext \<Rightarrow> State \<Rightarrow> ExpressiveCodePlugin list \<Rightarrow> PluginStyles list" where
  "pluginBaseStyles resolverContext s [] = []"
| "pluginBaseStyles resolverContext s (plugin # rest) =
     (case baseStyles plugin of
        None \<Rightarrow> pluginBaseStyles resolverContext s rest
      | Some (StaticStyles css) \<Rightarrow>
          if \<not> truthy css then pluginBaseStyles resolverContext s rest
          else \<lparr> pluginName = plugin_name plugin, styles = css \<rparr>
               # pluginBaseStyles resolverContext s rest
      | Some (ComputedStyles f) \<Rightarrow>
          (let resolvedStyles = f resolverContext s
           in if \<not> truthy resolvedStyles then pluginBaseStyles resolverContext s rest
              else \<lparr> pluginName = plugin_name plugin, styles = resolvedStyles \<rparr>
                   # pluginBaseStyles resolverContext s rest))"

definition basePluginStyles ::
  "Imports \<Rightarrow> ExpressiveCodeEngine \<Rightarrow> State \<Rightarrow> PluginStyles list" where
  "basePluginStyles I e s =
     (let resolverContext = getResolverContext I s
      in \<lparr> pluginName = ''core'',
           styles = getCoreBaseStyles I resolverContext s (useStyleReset e)
                      (useThemedScrollbars e) (useThemedSelectionColors e) \<rparr>
         # pluginBaseStyles resolverContext s (plugins e))"

definition getBaseStyles :: "Imports \<Rightarrow> ExpressiveCodeEngine \<Rightarrow> State \<Rightarrow> string" where
  "getBaseStyles I e s =
     (let processedStyles = processPluginStyles I (basePluginStyles I e s)
      in wrapInCascadeLayer I (join [] processedStyles) (cascadeLayer e))"

subsection \<open>The configuration and the constructor\<close>

record ExpressiveCodeEngineConfig =
  config_themes :: "ref list option"
  config_minSyntaxHighlightingColorContrast :: "real option"
  config_useDarkModeMediaQuery :: "bool option"
  config_themeCssRoot :: "string option"
  config_themeCssSelector :: "ThemeCssSelector option"
  config_cascadeLayer :: "string option"
  config_useStyleReset :: "bool option"
  config_customizeTheme :: "(ref \<Rightarrow> heap \<Rightarrow> ref option \<times> heap) option"
  config_useThemedScrollbars :: "bool option"
  config_useThemedSelectionColors :: "bool option"
  config_styleOverrides :: "StyleOverrides option"
  config_defaultLocale :: "string option"
  config_defaultProps :: "Props option"
  config_plugins :: "(ExpressiveCodePlugin + ExpressiveCodePlugin list) list option"
  config_logger :: "ExpressiveCodeLoggerOptions option"
  config_theme :: "ref option"

text \<open>
  What the constructor does that can be observed from outside, in the order it happens: the
  migration of the deprecated \<^verbatim>\<open>theme\<close> option in the configuration object of the
  caller, the calls of the configured callback and of the imported functions, and the
  diagnostics written. The constructor has no statement of its own that writes a diagnostic;
  the warnings of the contrast pass are the diagnostics that
  \<^verbatim>\<open>ensureMinSyntaxHighlightingColorContrast\<close> returns.
\<close>

datatype Event =
  DeprecatedThemeMigrated ref
| CustomizeThemeCalled ref
| ResolveStyleSettingsCalled ref nat
| EnsureMinSyntaxHighlightingColorContrastCalled ref real "string option"
| Diagnostic string

fun isContrastPass :: "Event \<Rightarrow> bool" where
  "isContrastPass (ResolveStyleSettingsCalled _ _) = True"
| "isContrastPass (EnsureMinSyntaxHighlightingColorContrastCalled _ _ _) = True"
| "isContrastPass _ = False"

text \<open>
  The first statement of the constructor: it changes the configuration object it was given.
  A theme object is truthy; \<^verbatim>\<open>config.themes\<close>, an array when it is defined, is falsy
  only when it is undefined. \<^verbatim>\<open>Array.isArray(deprecatedConfig.theme)\<close> is false for a value
  of the declared type \<^verbatim>\<open>ExpressiveCodeTheme\<close>.
\<close>

definition migrateDeprecatedTheme :: "ExpressiveCodeEngineConfig \<Rightarrow> ExpressiveCodeEngineConfig" where
  "migrateDeprecatedTheme config =
     (case config_theme config of
        None \<Rightarrow> config
      | Some t \<Rightarrow>
          if config_themes config = None
          then config\<lparr> config_themes := Some [t], config_theme := None \<rparr>
          else config)"

text \<open>The event of that first statement: the migration, when it takes place.\<close>

definition migrationEvents :: "ExpressiveCodeEngineConfig \<Rightarrow> Event list" where
  "migrationEvents config =
     (case config_theme config of
        None \<Rightarrow> []
      | Some t \<Rightarrow> if config_themes config = None then [DeprecatedThemeMigrated t] else [])"

text \<open>
  \<^verbatim>\<open>Array.isArray(config.themes) ? [...config.themes] : config.themes ? [config.themes] :
  [new ExpressiveCodeTheme(githubDark), new ExpressiveCodeTheme(githubLight)]\<close>. The declared
  type of \<^verbatim>\<open>themes\<close> is an array or undefined, so the middle branch is not taken. The
  two default themes are new objects, the dark one allocated first.
\<close>

definition resolveThemes ::
  "Imports \<Rightarrow> ExpressiveCodeEngineConfig \<Rightarrow> heap \<Rightarrow> ref list \<times> heap" where
  "resolveThemes I config h =
     (case config_themes config of
        Some ts \<Rightarrow> (ts, h)
      | None \<Rightarrow>
          (let (dark, h1) = alloc (githubDark I) h;
               (light, h2) = alloc (githubLight I) h1
           in ([dark, light], h2)))"

text \<open>
  \<^verbatim>\<open>this.themes.length === 2 && this.themes[0].type !== this.themes[1].type\<close>
\<close>

definition themesAreDarkAndLight :: "heap \<Rightarrow> ref list \<Rightarrow> bool" where
  "themesAreDarkAndLight h ts =
     (length ts = 2 \<and> type (h ! (ts ! 0)) \<noteq> type (h ! (ts ! 1)))"

definition defaultThemeCssSelector :: ThemeCssSelector where
  "defaultThemeCssSelector =
     SelectorFn (\<lambda>t s.
       (Inr (Some (''[data-theme='' @ quote @ name (st_heap s ! t) @ quote @ '']'')), s))"

text \<open>\<^verbatim>\<open>config.plugins?.flat() || []\<close>\<close>

definition flatPlugins ::
  "(ExpressiveCodePlugin + ExpressiveCodePlugin list) list option \<Rightarrow> ExpressiveCodePlugin list" where
  "flatPlugins ps =
     (case ps of
        None \<Rightarrow> []
      | Some xs \<Rightarrow> concat (map (\<lambda>x. case x of Inl p \<Rightarrow> [p] | Inr qs \<Rightarrow> qs) xs))"

text \<open>
  The assignments to the fields of \<^verbatim>\<open>this\<close> before the themes are customized;
  \<^verbatim>\<open>styleVariants\<close> is assigned last, by \<open>constructor\<close>.
\<close>

definition resolveConfig ::
  "Imports \<Rightarrow> ExpressiveCodeEngineConfig \<Rightarrow> heap \<Rightarrow> ref list \<Rightarrow> ExpressiveCodeEngine" where
  "resolveConfig I config h ts =
     \<lparr> themes = ts,
       minSyntaxHighlightingColorContrast =
         (case config_minSyntaxHighlightingColorContrast config of None \<Rightarrow> 5.5 | Some r \<Rightarrow> r),
       useDarkModeMediaQuery =
         (case config_useDarkModeMediaQuery config of
            None \<Rightarrow> themesAreDarkAndLight h ts
          | Some b \<Rightarrow> b),
       themeCssRoot = (case config_themeCssRoot config of None \<Rightarrow> '':root'' | Some s \<Rightarrow> s),
       themeCssSelector =
         (case config_themeCssSelector config of None \<Rightarrow> defaultThemeCssSelector | Some f \<Rightarrow> f),
       cascadeLayer = (case config_cascadeLayer config of None \<Rightarrow> [] | Some s \<Rightarrow> s),
       useStyleReset = (case config_useStyleReset config of None \<Rightarrow> True | Some b \<Rightarrow> b),
       customizeTheme = config_customizeTheme config,
       useThemedScrollbars =
         (case config_useThemedScrollbars config of None \<Rightarrow> True | Some b \<Rightarrow> b),
       useThemedSelectionColors =
         (case config_useThemedSelectionColors config of None \<Rightarrow> False | Some b \<Rightarrow> b),
       styleOverrides = (case config_styleOverrides config of None \<Rightarrow> [] | Some so \<Rightarrow> so),
       styleVariants = [],
       defaultLocale =
         (case config_defaultLocale config of
            None \<Rightarrow> ''en-US''
          | Some s \<Rightarrow> if truthy s then s else ''en-US''),
       defaultProps = (case config_defaultProps config of None \<Rightarrow> [] | Some ps \<Rightarrow> ps),
       plugins = corePlugins I @ flatPlugins (config_plugins config),
       logger = ExpressiveCodeLogger (config_logger config) \<rparr>"

text \<open>
  The body of the callback of \<^verbatim>\<open>this.themes.map\<close>, for the theme \<open>t\<close> at index
  \<open>styleVariantIndex\<close>: the theme it returns, the store and the events after it.
\<close>

definition customizeStep ::
  "ExpressiveCodeEngine \<Rightarrow> ref \<Rightarrow> heap \<Rightarrow> Event list \<Rightarrow> ref \<times> heap \<times> Event list" where
  "customizeStep e t h evs =
     (case customizeTheme e of
        None \<Rightarrow> (t, h, evs)
      | Some f \<Rightarrow>
          (let (returned, h') = f t h
           in (case returned of None \<Rightarrow> t | Some t' \<Rightarrow> t', h', evs @ [CustomizeThemeCalled t])))"

definition contrastStep ::
  "Imports \<Rightarrow> ExpressiveCodeEngine \<Rightarrow> nat \<Rightarrow> ref \<Rightarrow> heap \<Rightarrow> Event list \<Rightarrow> heap \<times> Event list" where
  "contrastStep I e styleVariantIndex t h evs =
     (if minSyntaxHighlightingColorContrast e > 0
      then (let themeStyleSettings =
                  resolveStyleSettings I h t styleVariantIndex (plugins e) (styleOverrides e);
                codeBg = getFirstStaticColor I (Map_get themeStyleSettings ''codeBackground'');
                (h', warnings) =
                  ensureMinSyntaxHighlightingColorContrast I
                    (minSyntaxHighlightingColorContrast e) codeBg t h
            in (h',
                evs @ [ResolveStyleSettingsCalled t styleVariantIndex,
                       EnsureMinSyntaxHighlightingColorContrastCalled t
                         (minSyntaxHighlightingColorContrast e) codeBg]
                    @ map Diagnostic warnings))
      else (h, evs))"

fun themesLoop ::
  "Imports \<Rightarrow> ExpressiveCodeEngine \<Rightarrow> nat \<Rightarrow> ref list \<Rightarrow> heap \<Rightarrow> Event list
     \<Rightarrow> ref list \<times> heap \<times> Event list" where
  "themesLoop I e styleVariantIndex [] h evs = ([], h, evs)"
| "themesLoop I e styleVariantIndex (t # rest) h evs =
     (let (t1, h1, evs1) = customizeStep e t h evs;
          (h2, evs2) = contrastStep I e styleVariantIndex t1 h1 evs1;
          (ts, h3, evs3) = themesLoop I e (Suc styleVariantIndex) rest h2 evs2
      in (t1 # ts, h3, evs3))"

record Constructed =
  config_after :: ExpressiveCodeEngineConfig
  engine :: ExpressiveCodeEngine
  heap_after :: heap
  maps_after :: "declarations list"
  events :: "Event list"

text \<open>
  \<^verbatim>\<open>new ExpressiveCodeEngine(config)\<close> in the store \<open>h\<close>: the configuration object as the
  constructor leaves it, the engine, the store of theme objects, the \<^verbatim>\<open>Map\<close> objects
  of the style variants, and the events.
\<close>

definition constructor :: "Imports \<Rightarrow> ExpressiveCodeEngineConfig \<Rightarrow> heap \<Rightarrow> Constructed" where
  "constructor I config h =
     (let config1 = migrateDeprecatedTheme config;
          (ts0, h0) = resolveThemes I config1 h;
          e0 = resolveConfig I config1 h0 ts0;
          (ts1, h1, evs) = themesLoop I e0 0 ts0 h0 (migrationEvents config);
          e1 = e0\<lparr> themes := ts1 \<rparr>;
          (svs, maps) =
            resolveStyleVariants I h1 (themes e1) (styleOverrides e1) (plugins e1)
              (getCssVarName I);
          e2 = e1\<lparr> styleVariants := svs \<rparr>
      in \<lparr> config_after = config1, engine = e2, heap_after = h1, maps_after = maps,
           events = evs \<rparr>)"

text \<open>
  What the engine, its style variants and its themes hold: the state without what the
  caller's functions keep for themselves.
\<close>

definition engineData ::
  "State \<Rightarrow> heap \<times> declarations list \<times> ref list \<times> StyleVariant list" where
  "engineData s = (st_heap s, st_maps s, st_themes s, st_styleVariants s)"

text \<open>
  The state in which the constructor leaves the engine, with \<open>c\<close> for what the caller's
  functions keep for themselves.
\<close>

definition stateAfter :: "Constructed \<Rightarrow> nat \<Rightarrow> State" where
  "stateAfter constructed c =
     \<lparr> st_heap = heap_after constructed,
       st_maps = maps_after constructed,
       st_themes = themes (engine constructed),
       st_styleVariants = styleVariants (engine constructed),
       st_closure = c \<rparr>"

subsection \<open>Example inputs\<close>

text \<open>
  Themes in a store, stand-ins for the imported functions, and configurations built from
  the empty one. The stand-in for the contrast pass adds a colour to the theme it is given,
  so that a skipped pass and a pass that ran can be told apart; without a background colour
  it leaves the theme as it is and returns a warning. The stand-in for
  \<^verbatim>\<open>resolveStyleVariants\<close> gives every theme a style variant with a \<^verbatim>\<open>Map\<close> of its
  own.
\<close>

definition exampleDark :: ExpressiveCodeTheme where
  "exampleDark = \<lparr> name = ''dark1'', type = Dark, colors = [(''codeBackground'', ''#000'')] \<rparr>"

definition exampleLight :: ExpressiveCodeTheme where
  "exampleLight = \<lparr> name = ''light1'', type = Light, colors = [(''codeBackground'', ''#fff'')] \<rparr>"

definition exampleDark2 :: ExpressiveCodeTheme where
  "exampleDark2 = \<lparr> name = ''dark2'', type = Dark, colors = [(''codeBackground'', ''#000'')] \<rparr>"

definition exampleBare :: ExpressiveCodeTheme where
  "exampleBare = \<lparr> name = ''bare'', type = Light, colors = [] \<rparr>"

definition exampleHeap :: heap where
  "exampleHeap = [exampleDark, exampleLight, exampleDark2]"

definition exampleImports :: Imports where
  "exampleImports =
     \<lparr> githubDark = \<lparr> name = ''github-dark'', type = Dark, colors = [(''codeBackground'', ''#24292e'')] \<rparr>,
       githubLight = \<lparr> name = ''github-light'', type = Light, colors = [(''codeBackground'', ''#fff'')] \<rparr>,
       corePlugins = [],
       getCssVarName = (\<lambda>path. ''--ec-'' @ path),
       resolveStyleSettings = (\<lambda>h t styleVariantIndex ps overrides. colors (h ! t)),
       getFirstStaticColor = (\<lambda>v. v),
       ensureMinSyntaxHighlightingColorContrast =
         (\<lambda>minContrast bg t h.
            case bg of
              None \<Rightarrow> (h, [''no background color, contrast not adjusted''])
            | Some c \<Rightarrow>
                (h[t := (h ! t)\<lparr> colors := colors (h ! t) @ [(''adjusted'', ''yes'')] \<rparr>], [])),
       resolveStyleVariants =
         (\<lambda>h ts overrides ps cssVarName.
            (map (\<lambda>i. \<lparr> theme = ts ! i, cssVarDeclarations = i \<rparr>) [0..<length ts],
             map (\<lambda>t. map (\<lambda>(k, v). (cssVarName k, v)) (colors (h ! t))) ts)),
       getCoreBaseStyles = (\<lambda>context s styleReset scrollbars selectionColors. ''.ec{all:revert}''),
       getCoreThemeStyles = (\<lambda>styleVariantIndex. []),
       processPluginStyles = map styles,
       scopeAndMinifyNestedCss = filter (\<lambda>c. c \<noteq> CHR 0x0A \<and> c \<noteq> CHR 0x09),
       wrapInCascadeLayer = wrapInCascadeLayer_spec \<rparr>"

definition emptyConfig :: ExpressiveCodeEngineConfig where
  "emptyConfig =
     \<lparr> config_themes = None,
       config_minSyntaxHighlightingColorContrast = None,
       config_useDarkModeMediaQuery = None,
       config_themeCssRoot = None,
       config_themeCssSelector = None,
       config_cascadeLayer = None,
       config_useStyleReset = None,
       config_customizeTheme = None,
       config_useThemedScrollbars = None,
       config_useThemedSelectionColors = None,
       config_styleOverrides = None,
       config_defaultLocale = None,
       config_defaultProps = None,
       config_plugins = None,
       config_logger = None,
       config_theme = None \<rparr>"

text \<open>
  A \<^verbatim>\<open>customizeTheme\<close> callback that returns a new dark theme with the colours of the
  theme it was given.
\<close>

definition replaceByDarkCopy :: "ref \<Rightarrow> heap \<Rightarrow> ref option \<times> heap" where
  "replaceByDarkCopy t h =
     (Some (length h), h @ [\<lparr> name = ''custom'', type = Dark, colors = colors (h ! t) \<rparr>])"



definition countingSelector :: ThemeCssSelector where
  "countingSelector =
     SelectorFn (\<lambda>t s.
       (Inr (Some (''.call'' @ replicate (st_closure s) CHR ''i'')),
        s\<lparr> st_closure := Suc (st_closure s) \<rparr>))"


definition threeThemesInLayer :: Constructed where
  "threeThemesInLayer =
     constructor exampleImports
       (emptyConfig\<lparr> config_themes := Some [0, 1, 2],
                     config_minSyntaxHighlightingColorContrast := Some 0,
                     config_themeCssSelector := Some SelectorFalse,
                     config_cascadeLayer := Some ''ec'' \<rparr>)
       exampleHeap"

definition darkAndLightConfig :: ExpressiveCodeEngineConfig where
  "darkAndLightConfig =
     emptyConfig\<lparr> config_themes := Some [0, 1],
                   config_minSyntaxHighlightingColorContrast := Some 0 \<rparr>"

definition darkAndLight :: Constructed where
  "darkAndLight = constructor exampleImports darkAndLightConfig exampleHeap"


definition darkAndLightUnselected :: Constructed where
  "darkAndLightUnselected =
     constructor exampleImports
       (darkAndLightConfig\<lparr> config_themeCssSelector := Some SelectorFalse \<rparr>) exampleHeap"



definition darkAndLightCounting :: Constructed where
  "darkAndLightCounting =
     constructor exampleImports
       (darkAndLightConfig\<lparr> config_themeCssSelector := Some countingSelector \<rparr>) exampleHeap"

definition deprecatedThemeConfig :: ExpressiveCodeEngineConfig where
  "deprecatedThemeConfig = emptyConfig\<lparr> config_theme := Some 1 \<rparr>"

definition replacedThemes :: Constructed where
  "replacedThemes =
     constructor exampleImports
       (darkAndLightConfig\<lparr> config_customizeTheme := Some replaceByDarkCopy \<rparr>) exampleHeap"

definition deprecatedThemeReplaced :: Constructed where
  "deprecatedThemeReplaced =
     constructor exampleImports
       (deprecatedThemeConfig\<lparr> config_customizeTheme := Some replaceByDarkCopy \<rparr>) exampleHeap"

definition deprecatedBareTheme :: Constructed where
  "deprecatedBareTheme =
     constructor exampleImports (emptyConfig\<lparr> config_theme := Some 0 \<rparr>) [exampleBare]"


section \<open>Properties\<close>

subsection \<open>The differences of an alternate variant from the base variant\<close>

lemma Map_set_new: "k \<notin> fst ` set m \<Longrightarrow> Map_set k v m = m @ [(k, v)]"
  by (induction m) auto

lemma diffVarsLoop_filter:
  "distinct (map fst ds) \<Longrightarrow> fst ` set acc \<inter> fst ` set ds = {} \<Longrightarrow>
   diffVarsLoop b ds acc = acc @ filter (\<lambda>(k, v). Map_get b k \<noteq> Some v) ds"
proof (induction ds arbitrary: acc)
  case Nil
  then show ?case by simp
next
  case (Cons d ds)
  obtain k v where d: "d = (k, v)" by (cases d)
  have k_new: "k \<notin> fst ` set acc" using Cons.prems(2) d by auto
  have dist: "distinct (map fst ds)" and k_rest: "k \<notin> fst ` set ds"
    using Cons.prems(1) d by auto
  show ?case
  proof (cases "Map_get b k \<noteq> Some v")
    case True
    have "fst ` set (acc @ [(k, v)]) \<inter> fst ` set ds = {}"
      using Cons.prems(2) k_rest d by auto
    from Cons.IH [OF dist this] True k_new show ?thesis
      by (simp add: d Map_set_new)
  next
    case False
    have "fst ` set acc \<inter> fst ` set ds = {}" using Cons.prems(2) by auto
    from Cons.IH [OF dist this] False show ?thesis
      by (simp add: d)
  qed
qed

lemma computeDiffVars_filter:
  "distinct (map fst ds) \<Longrightarrow>
   computeDiffVars b ds = filter (\<lambda>(k, v). Map_get b k \<noteq> Some v) ds"
  by (simp add: computeDiffVars_def diffVarsLoop_filter)

lemma diffVarsLoop_same:
  "\<forall>(k, v) \<in> set ds. Map_get b k = Some v \<Longrightarrow> diffVarsLoop b ds acc = acc"
  by (induction ds arbitrary: acc) auto

lemma Map_get_computeDiffVars:
  assumes "distinct (map fst ds)"
  shows "Map_get (computeDiffVars b ds) k = Some v \<longleftrightarrow>
         Map_get ds k = Some v \<and> Map_get b k \<noteq> Some v"
proof -
  let ?P = "\<lambda>(k, v). Map_get b k \<noteq> Some v"
  have "distinct (map fst (filter ?P ds))" using assms by (rule distinct_map_filter)
  then have "Map_get (filter ?P ds) k = Some v \<longleftrightarrow> (k, v) \<in> set (filter ?P ds)"
    by (simp add: Map_get_def)
  moreover have "Map_get ds k = Some v \<longleftrightarrow> (k, v) \<in> set ds"
    using assms by (simp add: Map_get_def)
  ultimately show ?thesis using assms by (auto simp: computeDiffVars_filter)
qed

lemma nth_alternateVariantsFrom:
  "i < length svs \<Longrightarrow>
   alternateVariantsFrom I m b n svs ! i =
     \<lparr> alt_theme = theme (svs ! i),
       cssVars = renderDeclarations
         (computeDiffVars (m ! b) (m ! cssVarDeclarations (svs ! i))),
       coreStyles = getCoreThemeStyles I (n + i) \<rparr>"
proof (induction svs arbitrary: n i)
  case Nil
  then show ?case by simp
next
  case (Cons sv svs)
  then show ?case by (cases i) auto
qed

text \<open>
  C2. For the style variant at index \<open>i \<ge> 1\<close>, whose declarations have each name once,
  the entry of \<^verbatim>\<open>alternateVariants\<close> that \<^verbatim>\<open>getThemeStyles\<close> computes renders the map
  \<open>diffVars\<close>, and \<open>diffVars\<close> holds exactly the declarations of the variant whose value is
  not the value the base variant has for the same name (compared as strings, a name the base
  variant lacks counting as different), in the order of the variant. In particular, when
  every declaration of the variant has the value of the base variant, \<open>diffVars\<close> is empty
  and the variable declarations the variant's blocks are built from are the empty string.
  Here \<open>s\<close> is the state in which the loop runs, and \<open>baseVars\<close> the \<^verbatim>\<open>Map\<close> object the
  method took from the style variant at index 0 in its first statement; the statement holds
  for every such reference.
\<close>

theorem diffVars_exactly_the_differing_declarations:
  assumes "1 \<le> i" and "i < length (st_styleVariants s)"
    and "distinct (map fst (st_maps s ! cssVarDeclarations (st_styleVariants s ! i)))"
  shows "let baseVarsNow = st_maps s ! baseVars;
             declarations = st_maps s ! cssVarDeclarations (st_styleVariants s ! i);
             diffVars = computeDiffVars baseVarsNow declarations;
             variant = alternateVariants I s baseVars ! (i - 1)
         in variant = \<lparr> alt_theme = theme (st_styleVariants s ! i),
                         cssVars = renderDeclarations diffVars,
                         coreStyles = getCoreThemeStyles I i \<rparr>
            \<and> diffVars = filter (\<lambda>(varName, varValue). Map_get baseVarsNow varName \<noteq> Some varValue)
                            declarations
            \<and> (\<forall>varName varValue.
                  Map_get diffVars varName = Some varValue \<longleftrightarrow>
                  Map_get declarations varName = Some varValue
                  \<and> Map_get baseVarsNow varName \<noteq> Some varValue)
            \<and> ((\<forall>(varName, varValue) \<in> set declarations. Map_get baseVarsNow varName = Some varValue)
                 \<longrightarrow> diffVars = [] \<and> cssVars variant = [])"
proof -
  obtain j where j: "i = Suc j" using assms(1) by (cases i) auto
  have jl: "j < length (drop 1 (st_styleVariants s))" using assms(2) j by simp
  have nth: "drop 1 (st_styleVariants s) ! j = st_styleVariants s ! i"
    using assms(2) j by simp
  have variant: "alternateVariants I s baseVars ! (i - 1) =
      \<lparr> alt_theme = theme (st_styleVariants s ! i),
        cssVars = renderDeclarations
          (computeDiffVars (st_maps s ! baseVars)
             (st_maps s ! cssVarDeclarations (st_styleVariants s ! i))),
        coreStyles = getCoreThemeStyles I i \<rparr>"
    unfolding alternateVariants_def j
    using nth_alternateVariantsFrom [OF jl, of I "st_maps s" baseVars 1] nth j by simp
  let ?b = "st_maps s ! baseVars"
  let ?ds = "st_maps s ! cssVarDeclarations (st_styleVariants s ! i)"
  have filt: "computeDiffVars ?b ?ds =
                filter (\<lambda>(varName, varValue). Map_get ?b varName \<noteq> Some varValue) ?ds"
    by (rule computeDiffVars_filter [OF assms(3)])
  have exact: "\<forall>varName varValue.
                 Map_get (computeDiffVars ?b ?ds) varName = Some varValue \<longleftrightarrow>
                 Map_get ?ds varName = Some varValue \<and> Map_get ?b varName \<noteq> Some varValue"
    using Map_get_computeDiffVars [OF assms(3)] by blast
  have same: "(\<forall>(varName, varValue) \<in> set ?ds. Map_get ?b varName = Some varValue)
              \<longrightarrow> computeDiffVars ?b ?ds = []
                  \<and> cssVars (alternateVariants I s baseVars ! (i - 1)) = []"
  proof
    assume eq: "\<forall>(varName, varValue) \<in> set ?ds. Map_get ?b varName = Some varValue"
    have d: "computeDiffVars ?b ?ds = []"
      by (simp add: computeDiffVars_def diffVarsLoop_same [OF eq])
    have "cssVars (alternateVariants I s baseVars ! (i - 1)) = []"
      unfolding variant d by (simp add: renderDeclarations_def)
    with d show "computeDiffVars ?b ?ds = []
                  \<and> cssVars (alternateVariants I s baseVars ! (i - 1)) = []" by simp
  qed
  show ?thesis
    unfolding Let_def using variant filt exact same by blast
qed

theorem diffVars_exactly_the_differing_declarations_witness:
  "st_styleVariants (stateAfter threeThemesInLayer 0) =
     [\<lparr> theme = 0, cssVarDeclarations = 0 \<rparr>,
      \<lparr> theme = 1, cssVarDeclarations = 1 \<rparr>,
      \<lparr> theme = 2, cssVarDeclarations = 2 \<rparr>]
   \<and> st_maps (stateAfter threeThemesInLayer 0) =
       [[(''--ec-codeBackground'', ''#000'')],
        [(''--ec-codeBackground'', ''#fff'')],
        [(''--ec-codeBackground'', ''#000'')]]
   \<and> computeDiffVars [(''--ec-codeBackground'', ''#000'')] [(''--ec-codeBackground'', ''#fff'')]
       = [(''--ec-codeBackground'', ''#fff'')]
   \<and> cssVars (alternateVariants exampleImports (stateAfter threeThemesInLayer 0) 0 ! 0)
       = ''--ec-codeBackground:#fff''
   \<and> computeDiffVars [(''--ec-codeBackground'', ''#000'')] [(''--ec-codeBackground'', ''#000'')] = []
   \<and> cssVars (alternateVariants exampleImports (stateAfter threeThemesInLayer 0) 0 ! 1) = []"
proof -
  let ?s = "stateAfter threeThemesInLayer 0"
  have sv: "st_styleVariants ?s =
     [\<lparr> theme = 0, cssVarDeclarations = 0 \<rparr>,
      \<lparr> theme = 1, cssVarDeclarations = 1 \<rparr>,
      \<lparr> theme = 2, cssVarDeclarations = 2 \<rparr>]"
    by code_simp
  have maps: "st_maps ?s =
       [[(''--ec-codeBackground'', ''#000'')],
        [(''--ec-codeBackground'', ''#fff'')],
        [(''--ec-codeBackground'', ''#000'')]]"
    by code_simp
  have d1: "distinct (map fst (st_maps ?s ! cssVarDeclarations (st_styleVariants ?s ! 1)))"
    by code_simp
  have d2: "distinct (map fst (st_maps ?s ! cssVarDeclarations (st_styleVariants ?s ! 2)))"
    by code_simp
  have l1: "1 < length (st_styleVariants ?s)" and l2: "2 < length (st_styleVariants ?s)"
    by code_simp+
  have same: "\<forall>(varName, varValue) \<in> set (st_maps ?s ! cssVarDeclarations (st_styleVariants ?s ! 2)).
                Map_get (st_maps ?s ! 0) varName = Some varValue"
    by code_simp
  have b: "st_maps ?s ! 0 = [(''--ec-codeBackground'', ''#000'')]"
    and n1: "st_maps ?s ! cssVarDeclarations (st_styleVariants ?s ! 1)
               = [(''--ec-codeBackground'', ''#fff'')]"
    and n2: "st_maps ?s ! cssVarDeclarations (st_styleVariants ?s ! 2)
               = [(''--ec-codeBackground'', ''#000'')]"
    by code_simp+
  have f1: "filter (\<lambda>(varName, varValue).
                Map_get [(''--ec-codeBackground'', ''#000'')] varName \<noteq> Some varValue)
              [(''--ec-codeBackground'', ''#fff'')] = [(''--ec-codeBackground'', ''#fff'')]"
    by code_simp
  have r1: "renderDeclarations [(''--ec-codeBackground'', ''#fff'')] = ''--ec-codeBackground:#fff''"
    by code_simp
  note first = diffVars_exactly_the_differing_declarations
                 [OF order_refl l1 d1, of 0 exampleImports, unfolded Let_def n1 b]
  from conjunct1 [OF first] conjunct1 [OF conjunct2 [OF first]] f1 r1
  have one: "computeDiffVars [(''--ec-codeBackground'', ''#000'')] [(''--ec-codeBackground'', ''#fff'')]
               = [(''--ec-codeBackground'', ''#fff'')]
             \<and> cssVars (alternateVariants exampleImports ?s 0 ! 0) = ''--ec-codeBackground:#fff''"
    by simp
  have le: "(1::nat) \<le> 2" by simp
  note second = diffVars_exactly_the_differing_declarations
                  [OF le l2 d2, of 0 exampleImports, unfolded Let_def]
  from conjunct2 [OF conjunct2 [OF conjunct2 [OF second]]] same
  have "computeDiffVars (st_maps ?s ! 0) (st_maps ?s ! cssVarDeclarations (st_styleVariants ?s ! 2)) = []
        \<and> cssVars (alternateVariants exampleImports ?s 0 ! (2 - 1)) = []"
    by blast
  then have two: "computeDiffVars [(''--ec-codeBackground'', ''#000'')] [(''--ec-codeBackground'', ''#000'')] = []
             \<and> cssVars (alternateVariants exampleImports ?s 0 ! 1) = []"
    unfolding n2 b by simp
  from sv maps one two show ?thesis by (intro conjI) simp_all
qed

subsection \<open>The errors of getThemeStyles\<close>




lemma themeStyles_Nil: "st_styleVariants s = [] \<Longrightarrow> themeStyles I e s = (Inl TypeError, s)"
  by (simp add: themeStyles_def)

lemma themeStyles_base_throws:
  "st_styleVariants s = bv # rest \<Longrightarrow> callThemeCssSelector e (theme bv) s = (Inl err, s1) \<Longrightarrow>
   themeStyles I e s = (Inl err, s1)"
  by (simp add: themeStyles_def)

lemma themeStyles_base_returns:
  "st_styleVariants s = bv # rest \<Longrightarrow> callThemeCssSelector e (theme bv) s = (Inr sel, s1) \<Longrightarrow>
   themeStyles I e s =
     (case mediaQueryStyles I e s1 sel (alternateVariants I s1 (cssVarDeclarations bv)) of
        Inl err \<Rightarrow> (Inl err, s1)
      | Inr mediaQuery \<Rightarrow>
          (case perThemeStyles I e sel (alternateVariants I s1 (cssVarDeclarations bv)) s1 of
             (Inl err, s2) \<Rightarrow> (Inl err, s2)
           | (Inr blocks, s2) \<Rightarrow>
               (Inr ([baseThemeStyles I e (st_maps s1 ! cssVarDeclarations bv) sel]
                     @ mediaQuery @ blocks), s2)))"
  by (simp add: themeStyles_def Let_def)













subsection \<open>The cascade layer\<close>

lemma getThemeStyles_Inr:
  "fst (themeStyles I e s) = Inr fragments \<Longrightarrow>
   fst (getThemeStyles I e s) = Inr (wrapInCascadeLayer I (join [] fragments) (cascadeLayer e))"
  by (cases "themeStyles I e s") (auto simp: getThemeStyles_def split: sum.splits)

lemma getThemeStyles_Inr_fragments:
  "fst (getThemeStyles I e s) = Inr css \<Longrightarrow> \<exists>fragments. fst (themeStyles I e s) = Inr fragments"
  by (cases "themeStyles I e s") (auto simp: getThemeStyles_def split: sum.splits)

lemma constructor_unfold:
  "constructor I config h =
     (let config1 = migrateDeprecatedTheme config;
          r = resolveThemes I config1 h;
          e0 = resolveConfig I config1 (snd r) (fst r);
          l = themesLoop I e0 0 (fst r) (snd r) (migrationEvents config);
          v = resolveStyleVariants I (fst (snd l)) (fst l) (styleOverrides e0)
                (plugins e0) (getCssVarName I)
      in \<lparr> config_after = config1,
           engine = e0\<lparr> themes := fst l, styleVariants := fst v \<rparr>,
           heap_after = fst (snd l),
           maps_after = snd v,
           events = snd (snd l) \<rparr>)"
  by (simp add: constructor_def Let_def split: prod.splits)

lemma cascadeLayer_constructor:
  "cascadeLayer (engine (constructor I config h)) =
     (case config_cascadeLayer config of None \<Rightarrow> [] | Some L \<Rightarrow> L)"
  by (simp add: constructor_unfold Let_def resolveConfig_def migrateDeprecatedTheme_def
        split: option.splits)

text \<open>
  C3. The \<^verbatim>\<open>cascadeLayer\<close> of a constructed engine is the configured one, and the empty
  string when none is configured. With the cascade layer wrapper as the specification
  describes it: when \<^verbatim>\<open>cascadeLayer\<close> is the empty string, \<^verbatim>\<open>getBaseStyles\<close> returns the
  joined processed styles and \<^verbatim>\<open>getThemeStyles\<close>, when it returns, the joined elements of
  \<^verbatim>\<open>themeStyles\<close>, unchanged; when \<^verbatim>\<open>cascadeLayer\<close> is a non-empty string \<open>L\<close>, each
  returns that same text wrapped once as \<^verbatim>\<open>@layer L { ... }\<close>.
\<close>

theorem cascade_layer_wraps_once:
  assumes "wrapInCascadeLayer I = wrapInCascadeLayer_spec"
  shows "cascadeLayer (engine (constructor I config h')) =
           (case config_cascadeLayer config of None \<Rightarrow> [] | Some L \<Rightarrow> L)
       \<and> getBaseStyles I e s =
           (if cascadeLayer e = [] then join [] (processPluginStyles I (basePluginStyles I e s))
            else ''@layer '' @ cascadeLayer e @ '' { ''
                 @ join [] (processPluginStyles I (basePluginStyles I e s)) @ '' }'')
       \<and> (\<forall>css. fst (getThemeStyles I e s) = Inr css \<longrightarrow>
             (\<exists>fragments. fst (themeStyles I e s) = Inr fragments
                \<and> css = (if cascadeLayer e = [] then join [] fragments
                         else ''@layer '' @ cascadeLayer e @ '' { '' @ join [] fragments @ '' }'')))"
proof -
  have base: "getBaseStyles I e s =
           (if cascadeLayer e = [] then join [] (processPluginStyles I (basePluginStyles I e s))
            else ''@layer '' @ cascadeLayer e @ '' { ''
                 @ join [] (processPluginStyles I (basePluginStyles I e s)) @ '' }'')"
    by (simp add: getBaseStyles_def assms wrapInCascadeLayer_spec_def)
  have themed: "\<exists>fragments. fst (themeStyles I e s) = Inr fragments
                \<and> css = (if cascadeLayer e = [] then join [] fragments
                         else ''@layer '' @ cascadeLayer e @ '' { '' @ join [] fragments @ '' }'')"
    if "fst (getThemeStyles I e s) = Inr css" for css
  proof -
    from that obtain fragments where f: "fst (themeStyles I e s) = Inr fragments"
      using getThemeStyles_Inr_fragments by blast
    from getThemeStyles_Inr [OF f] that
    have "css = wrapInCascadeLayer_spec (join [] fragments) (cascadeLayer e)"
      by (simp add: assms)
    with f show ?thesis by (auto simp: wrapInCascadeLayer_spec_def)
  qed
  from base themed cascadeLayer_constructor show ?thesis by blast
qed

theorem cascade_layer_wraps_once_witness:
  "wrapInCascadeLayer exampleImports = wrapInCascadeLayer_spec
   \<and> cascadeLayer (engine threeThemesInLayer) = ''ec''
   \<and> getBaseStyles exampleImports (engine threeThemesInLayer) (stateAfter threeThemesInLayer 0)
       = ''@layer ec { .ec{all:revert} }''
   \<and> fst (getThemeStyles exampleImports (engine threeThemesInLayer)
            (stateAfter threeThemesInLayer 0))
       = Inr ''@layer ec { :root {--ec-codeBackground:#000}& {} }''
   \<and> cascadeLayer (engine darkAndLightUnselected) = []
   \<and> getBaseStyles exampleImports (engine darkAndLightUnselected)
         (stateAfter darkAndLightUnselected 0) = ''.ec{all:revert}''
   \<and> fst (getThemeStyles exampleImports (engine darkAndLightUnselected)
            (stateAfter darkAndLightUnselected 0))
       = Inr '':root {--ec-codeBackground:#000}& {}@media (prefers-color-scheme: light) {:root {--ec-codeBackground:#fff}:root & {}}''"
proof -
  let ?e = "engine threeThemesInLayer"
  let ?s = "stateAfter threeThemesInLayer 0"
  let ?e' = "engine darkAndLightUnselected"
  let ?s' = "stateAfter darkAndLightUnselected 0"
  have w: "wrapInCascadeLayer exampleImports = wrapInCascadeLayer_spec"
    by (simp add: exampleImports_def)
  have layer: "cascadeLayer ?e = ''ec''" by code_simp
  have frags: "fst (themeStyles exampleImports ?e ?s)
                 = Inr ['':root {--ec-codeBackground:#000}& {}'']"
    by code_simp
  have css: "join [] (processPluginStyles exampleImports (basePluginStyles exampleImports ?e ?s))
               = ''.ec{all:revert}''"
    by code_simp
  have ok: "fst (getThemeStyles exampleImports ?e ?s)
              = Inr ''@layer ec { :root {--ec-codeBackground:#000}& {} }''"
    by code_simp
  have none: "cascadeLayer ?e' = []" by code_simp
  have css': "join [] (processPluginStyles exampleImports (basePluginStyles exampleImports ?e' ?s'))
               = ''.ec{all:revert}''"
    by code_simp
  have themed': "fst (getThemeStyles exampleImports ?e' ?s')
       = Inr '':root {--ec-codeBackground:#000}& {}@media (prefers-color-scheme: light) {:root {--ec-codeBackground:#fff}:root & {}}''"
    by code_simp
  note layered = cascade_layer_wraps_once [OF w, of _ _ ?e ?s]
  from conjunct1 [OF conjunct2 [OF layered]] layer css
  have base: "getBaseStyles exampleImports ?e ?s = ''@layer ec { .ec{all:revert} }''"
    by simp
  note plain = cascade_layer_wraps_once [OF w, of _ _ ?e' ?s']
  from conjunct1 [OF conjunct2 [OF plain]] none css'
  have base': "getBaseStyles exampleImports ?e' ?s' = ''.ec{all:revert}''"
    by simp
  from w layer base ok none base' themed' show ?thesis by (intro conjI)
qed

subsection \<open>No theme selectors\<close>

lemma themeCssSelector_constructor:
  "themeCssSelector (engine (constructor I config h)) =
     (case config_themeCssSelector config of None \<Rightarrow> defaultThemeCssSelector | Some f \<Rightarrow> f)"
  by (simp add: constructor_unfold Let_def resolveConfig_def migrateDeprecatedTheme_def
        split: option.splits)



subsection \<open>Calling getThemeStyles twice\<close>

lemma alternateVariants_data:
  "engineData s = engineData s' \<Longrightarrow> alternateVariants I s b = alternateVariants I s' b"
  by (simp add: engineData_def alternateVariants_def)

lemma mediaQueryStyles_data:
  "engineData s = engineData s' \<Longrightarrow>
   mediaQueryStyles I e s sel alts = mediaQueryStyles I e s' sel alts"
proof -
  assume "engineData s = engineData s'"
  then have h: "st_heap s = st_heap s'" and t: "st_themes s = st_themes s'"
    and v: "st_styleVariants s = st_styleVariants s'"
    by (simp_all add: engineData_def)
  show ?thesis unfolding mediaQueryStyles_def mediaQueryError_def h t v by (rule refl)
qed

lemma callThemeCssSelector_data:
  assumes "\<forall>f t \<sigma> \<sigma>'. themeCssSelector e = SelectorFn f \<and> engineData \<sigma> = engineData \<sigma>'
             \<longrightarrow> fst (f t \<sigma>) = fst (f t \<sigma>')"
    and "\<forall>f t \<sigma>. themeCssSelector e = SelectorFn f \<longrightarrow> engineData (snd (f t \<sigma>)) = engineData \<sigma>"
    and "engineData s = engineData s'"
  shows "fst (callThemeCssSelector e t s) = fst (callThemeCssSelector e t s')"
    and "engineData (snd (callThemeCssSelector e t s)) = engineData s"
proof -
  show "fst (callThemeCssSelector e t s) = fst (callThemeCssSelector e t s')"
  proof (cases "themeCssSelector e")
    case SelectorFalse
    then show ?thesis by (simp add: callThemeCssSelector_def)
  next
    case (SelectorFn f)
    with assms(1,3) have "fst (f t s) = fst (f t s')" by blast
    with SelectorFn show ?thesis by (simp add: callThemeCssSelector_def)
  qed
  show "engineData (snd (callThemeCssSelector e t s)) = engineData s"
  proof (cases "themeCssSelector e")
    case SelectorFalse
    then show ?thesis by (simp add: callThemeCssSelector_def)
  next
    case (SelectorFn f)
    with assms(2) have "engineData (snd (f t s)) = engineData s" by blast
    with SelectorFn show ?thesis by (simp add: callThemeCssSelector_def)
  qed
qed

lemma perThemeLoop_data:
  assumes det: "\<forall>f t \<sigma> \<sigma>'. themeCssSelector e = SelectorFn f \<and> engineData \<sigma> = engineData \<sigma>'
             \<longrightarrow> fst (f t \<sigma>) = fst (f t \<sigma>')"
    and unch: "\<forall>f t \<sigma>. themeCssSelector e = SelectorFn f
             \<longrightarrow> engineData (snd (f t \<sigma>)) = engineData \<sigma>"
  shows "engineData s = engineData s' \<Longrightarrow>
         fst (perThemeLoop I e b alts s) = fst (perThemeLoop I e b alts s')
         \<and> engineData (snd (perThemeLoop I e b alts s)) = engineData s"
proof (induction alts arbitrary: s s')
  case Nil
  then show ?case by simp
next
  case (Cons variant rest)
  obtain r \<sigma> where c: "callThemeCssSelector e (alt_theme variant) s = (r, \<sigma>)"
    by (cases "callThemeCssSelector e (alt_theme variant) s")
  obtain r' \<sigma>' where c': "callThemeCssSelector e (alt_theme variant) s' = (r', \<sigma>')"
    by (cases "callThemeCssSelector e (alt_theme variant) s'")
  from callThemeCssSelector_data [OF det unch Cons.prems, of "alt_theme variant"] c c'
  have rr: "r' = r" and d1: "engineData \<sigma> = engineData s" by simp_all
  from callThemeCssSelector_data(2) [OF det unch Cons.prems [symmetric], of "alt_theme variant"] c'
  have d2: "engineData \<sigma>' = engineData s'" by simp
  from d1 d2 Cons.prems have dd: "engineData \<sigma> = engineData \<sigma>'" by simp
  show ?case
  proof (cases r)
    case (Inl err)
    with c c' rr d1 show ?thesis by simp
  next
    case (Inr sel)
    obtain q \<tau> where p: "perThemeLoop I e b rest \<sigma> = (q, \<tau>)"
      by (cases "perThemeLoop I e b rest \<sigma>")
    obtain q' \<tau>' where p': "perThemeLoop I e b rest \<sigma>' = (q', \<tau>')"
      by (cases "perThemeLoop I e b rest \<sigma>'")
    from Cons.IH [OF dd] p p' have qq: "q' = q" and d3: "engineData \<tau> = engineData \<sigma>"
      by simp_all
    from Inr c c' rr p p' qq d3 d1 show ?thesis by (cases q) simp_all
  qed
qed

lemma perThemeStyles_data:
  assumes det: "\<forall>f t \<sigma> \<sigma>'. themeCssSelector e = SelectorFn f \<and> engineData \<sigma> = engineData \<sigma>'
             \<longrightarrow> fst (f t \<sigma>) = fst (f t \<sigma>')"
    and unch: "\<forall>f t \<sigma>. themeCssSelector e = SelectorFn f
             \<longrightarrow> engineData (snd (f t \<sigma>)) = engineData \<sigma>"
    and d: "engineData s = engineData s'"
  shows "fst (perThemeStyles I e b alts s) = fst (perThemeStyles I e b alts s')"
    and "engineData (snd (perThemeStyles I e b alts s)) = engineData s"
  using perThemeLoop_data [OF det unch d, of I b alts]
  by (cases "themeCssSelector e"; simp add: perThemeStyles_def)+

lemma themeStyles_data:
  assumes det: "\<forall>f t \<sigma> \<sigma>'. themeCssSelector e = SelectorFn f \<and> engineData \<sigma> = engineData \<sigma>'
             \<longrightarrow> fst (f t \<sigma>) = fst (f t \<sigma>')"
    and unch: "\<forall>f t \<sigma>. themeCssSelector e = SelectorFn f
             \<longrightarrow> engineData (snd (f t \<sigma>)) = engineData \<sigma>"
    and d: "engineData s = engineData s'"
  shows "fst (themeStyles I e s) = fst (themeStyles I e s')
         \<and> engineData (snd (themeStyles I e s)) = engineData s"
proof (cases "st_styleVariants s")
  case Nil
  moreover from Nil d have "st_styleVariants s' = []" by (simp add: engineData_def)
  ultimately show ?thesis by (simp add: themeStyles_Nil)
next
  case (Cons bv rest)
  from Cons d have Cons': "st_styleVariants s' = bv # rest" by (simp add: engineData_def)
  obtain r \<sigma> where c: "callThemeCssSelector e (theme bv) s = (r, \<sigma>)"
    by (cases "callThemeCssSelector e (theme bv) s")
  obtain r' \<sigma>' where c': "callThemeCssSelector e (theme bv) s' = (r', \<sigma>')"
    by (cases "callThemeCssSelector e (theme bv) s'")
  from callThemeCssSelector_data [OF det unch d, of "theme bv"] c c'
  have rr: "r' = r" and d1: "engineData \<sigma> = engineData s" by simp_all
  from callThemeCssSelector_data(2) [OF det unch d [symmetric], of "theme bv"] c'
  have d2: "engineData \<sigma>' = engineData s'" by simp
  from d1 d2 d have dd: "engineData \<sigma> = engineData \<sigma>'" by simp
  show ?thesis
  proof (cases r)
    case (Inl err)
    from themeStyles_base_throws [OF Cons c [unfolded Inl], of I]
         themeStyles_base_throws [OF Cons' c' [unfolded rr Inl], of I] d1
    show ?thesis by simp
  next
    case (Inr sel)
    let ?alts = "alternateVariants I \<sigma> (cssVarDeclarations bv)"
    have alts: "alternateVariants I \<sigma>' (cssVarDeclarations bv) = ?alts"
      using alternateVariants_data [OF dd] by simp
    have mq: "mediaQueryStyles I e \<sigma>' sel ?alts = mediaQueryStyles I e \<sigma> sel ?alts"
      using mediaQueryStyles_data [OF dd] by simp
    have maps: "st_maps \<sigma>' = st_maps \<sigma>" using dd by (simp add: engineData_def)
    obtain q \<tau> where p: "perThemeStyles I e sel ?alts \<sigma> = (q, \<tau>)"
      by (cases "perThemeStyles I e sel ?alts \<sigma>")
    obtain q' \<tau>' where p': "perThemeStyles I e sel ?alts \<sigma>' = (q', \<tau>')"
      by (cases "perThemeStyles I e sel ?alts \<sigma>'")
    from perThemeStyles_data [OF det unch dd, of I sel ?alts] p p'
    have qq: "q' = q" and d3: "engineData \<tau> = engineData \<sigma>" by simp_all
    note t = themeStyles_base_returns [OF Cons c [unfolded Inr], of I]
    note t' = themeStyles_base_returns [OF Cons' c' [unfolded rr Inr], of I]
    show ?thesis
      unfolding t t' alts mq maps p p' qq
      using d1 d3 by (simp split: sum.splits)
  qed
qed

lemma defaultThemeCssSelector_deterministic:
  "SelectorFn f = defaultThemeCssSelector \<Longrightarrow> engineData \<sigma> = engineData \<sigma>' \<Longrightarrow>
   fst (f t \<sigma>) = fst (f t \<sigma>')"
  by (auto simp: defaultThemeCssSelector_def engineData_def)

lemma defaultThemeCssSelector_unchanged:
  "SelectorFn f = defaultThemeCssSelector \<Longrightarrow> engineData (snd (f t \<sigma>)) = engineData \<sigma>"
  by (auto simp: defaultThemeCssSelector_def)

text \<open>
  C8. Let the selector function of the engine be deterministic (what it returns or throws is
  determined by the theme and by what the engine, its style variants and its themes hold)
  and let it leave these as they are. Then a call of \<^verbatim>\<open>getThemeStyles\<close> leaves them as
  they are, and any two calls have the same result, the same string or the same error: the
  first call in a state \<open>s\<close>, the second in any state \<open>s'\<close> in which the engine, its style
  variants and its themes hold what they held after the first call.
\<close>

theorem getThemeStyles_twice_same_result:
  assumes "\<forall>f t \<sigma> \<sigma>'. themeCssSelector e = SelectorFn f \<and> engineData \<sigma> = engineData \<sigma>'
             \<longrightarrow> fst (f t \<sigma>) = fst (f t \<sigma>')"
    and "\<forall>f t \<sigma>. themeCssSelector e = SelectorFn f \<longrightarrow> engineData (snd (f t \<sigma>)) = engineData \<sigma>"
    and "getThemeStyles I e s = (r1, s1)"
    and "engineData s' = engineData s1"
    and "getThemeStyles I e s' = (r2, s2)"
  shows "r1 = r2 \<and> engineData s1 = engineData s \<and> engineData s2 = engineData s"
proof -
  have data: "fst (getThemeStyles I e \<sigma>) = fst (getThemeStyles I e \<sigma>')
              \<and> engineData (snd (getThemeStyles I e \<sigma>)) = engineData \<sigma>"
    if "engineData \<sigma> = engineData \<sigma>'" for \<sigma> \<sigma>'
    using themeStyles_data [OF assms(1,2) that, of I]
    by (cases "themeStyles I e \<sigma>"; cases "themeStyles I e \<sigma>'")
       (auto simp: getThemeStyles_def split: sum.splits)
  from data [of s s] assms(3) have one: "engineData s1 = engineData s" by simp
  with assms(4) have same: "engineData s = engineData s'" by simp
  from data [OF same] assms(3,5) have "r1 = r2" by simp
  moreover from data [of s' s'] assms(5) same have "engineData s2 = engineData s" by simp
  ultimately show ?thesis using one by simp
qed

theorem getThemeStyles_twice_same_result_witness:
  "fst (getThemeStyles exampleImports (engine darkAndLight)
          (snd (getThemeStyles exampleImports (engine darkAndLight) (stateAfter darkAndLight 0))))
     = fst (getThemeStyles exampleImports (engine darkAndLight) (stateAfter darkAndLight 0))
   \<and> fst (getThemeStyles exampleImports (engine darkAndLight) (stateAfter darkAndLight 7))
     = fst (getThemeStyles exampleImports (engine darkAndLight) (stateAfter darkAndLight 0))
   \<and> fst (getThemeStyles exampleImports (engine darkAndLightUnselected)
          (snd (getThemeStyles exampleImports (engine darkAndLightUnselected)
                  (stateAfter darkAndLightUnselected 0))))
     = Inr '':root {--ec-codeBackground:#000}& {}@media (prefers-color-scheme: light) {:root {--ec-codeBackground:#fff}:root & {}}''"
proof -
  let ?I = exampleImports
  let ?e = "engine darkAndLight"
  let ?s = "stateAfter darkAndLight 0"
  let ?e' = "engine darkAndLightUnselected"
  let ?s' = "stateAfter darkAndLightUnselected 0"
  have sel: "themeCssSelector ?e = defaultThemeCssSelector"
    unfolding darkAndLight_def
    by (simp add: themeCssSelector_constructor darkAndLightConfig_def emptyConfig_def)
  have det: "\<forall>f t \<sigma> \<sigma>'. themeCssSelector ?e = SelectorFn f \<and> engineData \<sigma> = engineData \<sigma>'
               \<longrightarrow> fst (f t \<sigma>) = fst (f t \<sigma>')"
    unfolding sel using defaultThemeCssSelector_deterministic by metis
  have unch: "\<forall>f t \<sigma>. themeCssSelector ?e = SelectorFn f
               \<longrightarrow> engineData (snd (f t \<sigma>)) = engineData \<sigma>"
    unfolding sel using defaultThemeCssSelector_unchanged by metis
  obtain r1 s1 where c1: "getThemeStyles ?I ?e ?s = (r1, s1)"
    by (cases "getThemeStyles ?I ?e ?s")
  obtain r2 s2 where c2: "getThemeStyles ?I ?e s1 = (r2, s2)"
    by (cases "getThemeStyles ?I ?e s1")
  from getThemeStyles_twice_same_result [OF det unch c1 refl c2] c1 c2
  have one: "fst (getThemeStyles ?I ?e (snd (getThemeStyles ?I ?e ?s)))
               = fst (getThemeStyles ?I ?e ?s)"
    by simp
  note again = getThemeStyles_twice_same_result [OF det unch c1 refl c2]
  have same: "engineData (stateAfter darkAndLight 7) = engineData s1"
    using conjunct1 [OF conjunct2 [OF again]] by (simp add: engineData_def stateAfter_def)
  obtain r3 s3 where c3: "getThemeStyles ?I ?e (stateAfter darkAndLight 7) = (r3, s3)"
    by (cases "getThemeStyles ?I ?e (stateAfter darkAndLight 7)")
  from getThemeStyles_twice_same_result [OF det unch c1 same c3] c1 c3
  have two: "fst (getThemeStyles ?I ?e (stateAfter darkAndLight 7))
               = fst (getThemeStyles ?I ?e ?s)"
    by simp
  have sel': "themeCssSelector ?e' = SelectorFalse"
    unfolding darkAndLightUnselected_def by (simp add: themeCssSelector_constructor)
  have first: "fst (getThemeStyles ?I ?e' ?s')
     = Inr '':root {--ec-codeBackground:#000}& {}@media (prefers-color-scheme: light) {:root {--ec-codeBackground:#fff}:root & {}}''"
    by code_simp
  obtain q1 t1 where d1: "getThemeStyles ?I ?e' ?s' = (q1, t1)"
    by (cases "getThemeStyles ?I ?e' ?s'")
  obtain q2 t2 where d2: "getThemeStyles ?I ?e' t1 = (q2, t2)"
    by (cases "getThemeStyles ?I ?e' t1")
  have det': "\<forall>f t \<sigma> \<sigma>'. themeCssSelector ?e' = SelectorFn f \<and> engineData \<sigma> = engineData \<sigma>'
               \<longrightarrow> fst (f t \<sigma>) = fst (f t \<sigma>')"
    unfolding sel' by simp
  have unch': "\<forall>f t \<sigma>. themeCssSelector ?e' = SelectorFn f
               \<longrightarrow> engineData (snd (f t \<sigma>)) = engineData \<sigma>"
    unfolding sel' by simp
  from getThemeStyles_twice_same_result [OF det' unch' d1 refl d2] d1 d2 first
  have three: "fst (getThemeStyles ?I ?e' (snd (getThemeStyles ?I ?e' ?s')))
     = Inr '':root {--ec-codeBackground:#000}& {}@media (prefers-color-scheme: light) {:root {--ec-codeBackground:#fff}:root & {}}''"
    by simp
  from one two three show ?thesis by (intro conjI)
qed

text \<open>
  The hypothesis on the selector function is needed: with a selector function that numbers
  its calls, the second call of \<^verbatim>\<open>getThemeStyles\<close> returns another string than the first.
\<close>

lemma getThemeStyles_counting_selector_differs:
  "fst (getThemeStyles exampleImports (engine darkAndLightCounting)
          (stateAfter darkAndLightCounting 0))
     = Inr '':root,:root:not(.call) &.call {--ec-codeBackground:#000}&,:root:not(.call) &.call {}@media (prefers-color-scheme: light) {:root:not(.call) {--ec-codeBackground:#fff}:root:not(.call) & {}}:root.calli &:not(.call), &.calli {--ec-codeBackground:#fff;}''
   \<and> fst (getThemeStyles exampleImports (engine darkAndLightCounting)
          (snd (getThemeStyles exampleImports (engine darkAndLightCounting)
                  (stateAfter darkAndLightCounting 0))))
     = Inr '':root,:root:not(.callii) &.callii {--ec-codeBackground:#000}&,:root:not(.callii) &.callii {}@media (prefers-color-scheme: light) {:root:not(.callii) {--ec-codeBackground:#fff}:root:not(.callii) & {}}:root.calliii &:not(.callii), &.calliii {--ec-codeBackground:#fff;}''"
proof -
  have one: "fst (getThemeStyles exampleImports (engine darkAndLightCounting)
          (stateAfter darkAndLightCounting 0))
     = Inr '':root,:root:not(.call) &.call {--ec-codeBackground:#000}&,:root:not(.call) &.call {}@media (prefers-color-scheme: light) {:root:not(.call) {--ec-codeBackground:#fff}:root:not(.call) & {}}:root.calli &:not(.call), &.calli {--ec-codeBackground:#fff;}''"
    by code_simp
  have two: "fst (getThemeStyles exampleImports (engine darkAndLightCounting)
          (snd (getThemeStyles exampleImports (engine darkAndLightCounting)
                  (stateAfter darkAndLightCounting 0))))
     = Inr '':root,:root:not(.callii) &.callii {--ec-codeBackground:#000}&,:root:not(.callii) &.callii {}@media (prefers-color-scheme: light) {:root:not(.callii) {--ec-codeBackground:#fff}:root:not(.callii) & {}}:root.calliii &:not(.callii), &.calliii {--ec-codeBackground:#fff;}''"
    by code_simp
  from one two show ?thesis by (rule conjI)
qed

subsection \<open>The constructor\<close>

lemma config_after_constructor:
  "config_after (constructor I config h) = migrateDeprecatedTheme config"
  by (simp add: constructor_unfold Let_def)

text \<open>
  C9. When the configuration object has the deprecated \<^verbatim>\<open>theme\<close> and no \<^verbatim>\<open>themes\<close>,
  the constructor leaves that object changed: \<^verbatim>\<open>config.themes\<close> is the one-element list
  of the theme and \<^verbatim>\<open>config.theme\<close> is deleted; its other properties are as they were.
\<close>

theorem constructor_migrates_config_in_place:
  assumes "config_theme config = Some t" and "config_themes config = None"
  shows "config_after (constructor I config h) =
           config\<lparr> config_themes := Some [t], config_theme := None \<rparr>
       \<and> config_themes (config_after (constructor I config h)) = Some [t]
       \<and> config_theme (config_after (constructor I config h)) = None"
  using assms by (simp add: config_after_constructor migrateDeprecatedTheme_def)

theorem constructor_migrates_config_in_place_witness:
  "config_theme deprecatedThemeConfig = Some 1
   \<and> config_themes deprecatedThemeConfig = None
   \<and> config_themes (config_after (constructor exampleImports deprecatedThemeConfig exampleHeap))
       = Some [1]
   \<and> config_theme (config_after (constructor exampleImports deprecatedThemeConfig exampleHeap))
       = None"
proof -
  have t: "config_theme deprecatedThemeConfig = Some 1"
    and ts: "config_themes deprecatedThemeConfig = None"
    by (simp_all add: deprecatedThemeConfig_def emptyConfig_def)
  from constructor_migrates_config_in_place [OF t ts, of exampleImports exampleHeap] t ts
  show ?thesis by simp
qed

lemma customizeStep_theme:
  "fst (customizeStep e t h evs) =
     (case customizeTheme e of
        None \<Rightarrow> t
      | Some f \<Rightarrow> (case fst (f t h) of None \<Rightarrow> t | Some t' \<Rightarrow> t'))"
  by (simp add: customizeStep_def split: option.splits prod.splits)

lemma customizeStep_events:
  "snd (snd (customizeStep e t h evs)) =
     evs @ (case customizeTheme e of None \<Rightarrow> [] | Some f \<Rightarrow> [CustomizeThemeCalled t])"
  by (simp add: customizeStep_def split: option.splits prod.splits)

lemma customizeStep_None:
  "customizeTheme e = None \<Longrightarrow> customizeStep e t h evs = (t, h, evs)"
  by (simp add: customizeStep_def)

lemma contrastStep_skip:
  "\<not> minSyntaxHighlightingColorContrast e > 0 \<Longrightarrow> contrastStep I e n t h evs = (h, evs)"
  by (simp add: contrastStep_def)

lemma contrastStep_events:
  "\<forall>ev \<in> set evs. \<not> isContrastPass ev \<Longrightarrow>
   takeWhile (\<lambda>ev. \<not> isContrastPass ev) (snd (contrastStep I e n t h evs)) = evs"
  by (simp add: contrastStep_def Let_def split: prod.splits)

lemma themesLoop_unfold:
  "themesLoop I e n (t # rest) h evs =
     (let c = customizeStep e t h evs;
          a = contrastStep I e n (fst c) (fst (snd c)) (snd (snd c));
          l = themesLoop I e (Suc n) rest (fst a) (snd a)
      in (fst c # fst l, snd l))"
  by (simp add: Let_def split: prod.splits)

declare themesLoop.simps(2) [simp del]

lemma migrationEvents_no_contrast: "\<forall>ev \<in> set (migrationEvents config). \<not> isContrastPass ev"
  by (cases "config_theme config") (simp_all add: migrationEvents_def)

lemma themesLoop_no_contrast:
  assumes "\<not> minSyntaxHighlightingColorContrast e > 0"
  shows "\<forall>ev \<in> set evs. \<not> isContrastPass ev \<Longrightarrow>
         \<forall>ev \<in> set (snd (snd (themesLoop I e n ts h evs))). \<not> isContrastPass ev"
proof (induction ts arbitrary: n h evs)
  case Nil
  then show ?case by simp
next
  case (Cons t rest)
  let ?c = "customizeStep e t h evs"
  have c: "\<forall>ev \<in> set (snd (snd ?c)). \<not> isContrastPass ev"
    using Cons.prems by (auto simp: customizeStep_events split: option.splits)
  from Cons.IH [OF this] show ?case
    by (simp add: themesLoop_unfold Let_def contrastStep_skip [OF assms])
qed

lemma themesLoop_skip_independent:
  assumes "\<not> minSyntaxHighlightingColorContrast e > 0"
  shows "themesLoop I e n ts h evs = themesLoop I' e n ts h evs"
  by (induction ts arbitrary: n h evs)
     (simp_all add: themesLoop_unfold Let_def contrastStep_skip [OF assms])

lemma themesLoop_identity:
  assumes "\<not> minSyntaxHighlightingColorContrast e > 0" and "customizeTheme e = None"
  shows "themesLoop I e n ts h evs = (ts, h, evs)"
  by (induction ts arbitrary: n)
     (simp_all add: themesLoop_unfold Let_def contrastStep_skip [OF assms(1)]
        customizeStep_None [OF assms(2)])

lemma resolveConfig_min:
  "minSyntaxHighlightingColorContrast (resolveConfig I config h ts) =
     (case config_minSyntaxHighlightingColorContrast config of None \<Rightarrow> 5.5 | Some r \<Rightarrow> r)"
  by (simp add: resolveConfig_def)

lemma migrate_fields:
  "config_minSyntaxHighlightingColorContrast (migrateDeprecatedTheme config) =
     config_minSyntaxHighlightingColorContrast config"
  "config_useDarkModeMediaQuery (migrateDeprecatedTheme config) =
     config_useDarkModeMediaQuery config"
  "config_customizeTheme (migrateDeprecatedTheme config) = config_customizeTheme config"
  by (simp_all add: migrateDeprecatedTheme_def split: option.splits)

lemma min_constructor:
  "minSyntaxHighlightingColorContrast (engine (constructor I config h)) =
     (case config_minSyntaxHighlightingColorContrast config of None \<Rightarrow> 5.5 | Some r \<Rightarrow> r)"
  by (simp add: constructor_unfold Let_def resolveConfig_min migrate_fields)

lemma resolveThemes_update:
  "resolveThemes (I\<lparr> ensureMinSyntaxHighlightingColorContrast := f \<rparr>) config h =
     resolveThemes I config h"
  by (simp add: resolveThemes_def split: option.splits)

lemma resolveConfig_update:
  "resolveConfig (I\<lparr> ensureMinSyntaxHighlightingColorContrast := f \<rparr>) config h ts =
     resolveConfig I config h ts"
  by (simp add: resolveConfig_def)

text \<open>
  C5. When \<^verbatim>\<open>minSyntaxHighlightingColorContrast\<close> is configured as a value \<open>r \<le> 0\<close>, the
  constructor makes no call of the contrast pass (neither the preliminary
  \<^verbatim>\<open>resolveStyleSettings\<close> nor \<^verbatim>\<open>ensureMinSyntaxHighlightingColorContrast\<close>); what it
  constructs does not depend on what \<^verbatim>\<open>ensureMinSyntaxHighlightingColorContrast\<close> would do;
  and without a \<^verbatim>\<open>customizeTheme\<close> callback the store of theme objects and the themes
  list are as they were when the themes were resolved. When the option is omitted, the
  resolved value is 5.5.
\<close>

theorem nonpositive_contrast_skips_the_pass:
  "(\<forall>r. config_minSyntaxHighlightingColorContrast config = Some r \<and> r \<le> 0 \<longrightarrow>
      (\<forall>ev \<in> set (events (constructor I config h)). \<not> isContrastPass ev)
      \<and> constructor (I\<lparr> ensureMinSyntaxHighlightingColorContrast := f \<rparr>) config h
          = constructor I config h
      \<and> (config_customizeTheme config = None \<longrightarrow>
           heap_after (constructor I config h)
             = snd (resolveThemes I (migrateDeprecatedTheme config) h)
           \<and> themes (engine (constructor I config h))
             = fst (resolveThemes I (migrateDeprecatedTheme config) h)))
   \<and> (config_minSyntaxHighlightingColorContrast config = None \<longrightarrow>
        minSyntaxHighlightingColorContrast (engine (constructor I config h)) = 5.5)"
proof -
  let ?c = "migrateDeprecatedTheme config"
  let ?r = "resolveThemes I ?c h"
  let ?e0 = "resolveConfig I ?c (snd ?r) (fst ?r)"
  have skip: "\<not> minSyntaxHighlightingColorContrast ?e0 > 0"
    if "config_minSyntaxHighlightingColorContrast config = Some r" "r \<le> 0" for r
    using that by (simp add: resolveConfig_min migrate_fields)
  have no_events: "\<forall>ev \<in> set (events (constructor I config h)). \<not> isContrastPass ev"
    if "config_minSyntaxHighlightingColorContrast config = Some r" "r \<le> 0" for r
    using themesLoop_no_contrast
            [OF skip [OF that] migrationEvents_no_contrast [of config],
             of I 0 "fst ?r" "snd ?r"]
    by (simp add: constructor_unfold Let_def)
  have indep: "constructor (I\<lparr> ensureMinSyntaxHighlightingColorContrast := f \<rparr>) config h
                 = constructor I config h"
    if "config_minSyntaxHighlightingColorContrast config = Some r" "r \<le> 0" for r
    using themesLoop_skip_independent [OF skip [OF that],
            of "I\<lparr> ensureMinSyntaxHighlightingColorContrast := f \<rparr>" 0 "fst ?r" "snd ?r"
               "migrationEvents config" I]
    by (simp add: constructor_unfold Let_def resolveThemes_update resolveConfig_update)
  have untouched: "heap_after (constructor I config h) = snd ?r
                   \<and> themes (engine (constructor I config h)) = fst ?r"
    if "config_minSyntaxHighlightingColorContrast config = Some r" "r \<le> 0"
       "config_customizeTheme config = None" for r
  proof -
    have "customizeTheme ?e0 = None"
      using that(3) by (simp add: resolveConfig_def migrate_fields)
    from themesLoop_identity [OF skip [OF that(1,2)] this]
    show ?thesis by (simp add: constructor_unfold Let_def)
  qed
  have dflt: "config_minSyntaxHighlightingColorContrast config = None \<longrightarrow>
        minSyntaxHighlightingColorContrast (engine (constructor I config h)) = 5.5"
    by (simp add: min_constructor)
  from no_events indep untouched dflt show ?thesis by blast
qed

theorem nonpositive_contrast_skips_the_pass_witness:
  "config_minSyntaxHighlightingColorContrast darkAndLightConfig = Some 0
   \<and> (0::real) \<le> 0
   \<and> events (constructor exampleImports darkAndLightConfig exampleHeap) = []
   \<and> heap_after (constructor exampleImports darkAndLightConfig exampleHeap) = exampleHeap
   \<and> themes (engine (constructor exampleImports darkAndLightConfig exampleHeap)) = [0, 1]
   \<and> constructor
         (exampleImports\<lparr> ensureMinSyntaxHighlightingColorContrast := (\<lambda>r bg t h. ([], [])) \<rparr>)
         darkAndLightConfig exampleHeap
       = constructor exampleImports darkAndLightConfig exampleHeap
   \<and> config_minSyntaxHighlightingColorContrast emptyConfig = None
   \<and> minSyntaxHighlightingColorContrast (engine (constructor exampleImports emptyConfig [])) = 5.5
   \<and> events (constructor exampleImports emptyConfig []) =
       [ResolveStyleSettingsCalled 0 0,
        EnsureMinSyntaxHighlightingColorContrastCalled 0 5.5 (Some ''#24292e''),
        ResolveStyleSettingsCalled 1 1,
        EnsureMinSyntaxHighlightingColorContrastCalled 1 5.5 (Some ''#fff'')]"
proof -
  have m: "config_minSyntaxHighlightingColorContrast darkAndLightConfig = Some 0"
    by (simp add: darkAndLightConfig_def)
  have c: "config_customizeTheme darkAndLightConfig = None"
    by (simp add: darkAndLightConfig_def emptyConfig_def)
  have r: "resolveThemes exampleImports (migrateDeprecatedTheme darkAndLightConfig) exampleHeap
             = ([0, 1], exampleHeap)"
    by (simp add: resolveThemes_def migrateDeprecatedTheme_def darkAndLightConfig_def
          emptyConfig_def)
  have ev: "events (constructor exampleImports darkAndLightConfig exampleHeap) = []"
    by code_simp
  have d: "config_minSyntaxHighlightingColorContrast emptyConfig = None"
    by (simp add: emptyConfig_def)
  have ev': "events (constructor exampleImports emptyConfig []) =
       [ResolveStyleSettingsCalled 0 0,
        EnsureMinSyntaxHighlightingColorContrastCalled 0 5.5 (Some ''#24292e''),
        ResolveStyleSettingsCalled 1 1,
        EnsureMinSyntaxHighlightingColorContrastCalled 1 5.5 (Some ''#fff'')]"
    by code_simp
  from nonpositive_contrast_skips_the_pass
         [of darkAndLightConfig exampleImports exampleHeap "\<lambda>r bg t h. ([], [])"] m c r
  have skipped:
    "heap_after (constructor exampleImports darkAndLightConfig exampleHeap) = exampleHeap
     \<and> themes (engine (constructor exampleImports darkAndLightConfig exampleHeap)) = [0, 1]
     \<and> constructor
           (exampleImports\<lparr> ensureMinSyntaxHighlightingColorContrast := (\<lambda>r bg t h. ([], [])) \<rparr>)
           darkAndLightConfig exampleHeap
         = constructor exampleImports darkAndLightConfig exampleHeap"
    by simp
  from nonpositive_contrast_skips_the_pass [of emptyConfig exampleImports "[]"] d
  have dflt: "minSyntaxHighlightingColorContrast (engine (constructor exampleImports emptyConfig []))
                = 5.5"
    by simp
  from m ev skipped d dflt ev' show ?thesis by simp
qed

lemma resolveThemes_migrated:
  assumes "config_theme config = Some t" and "config_themes config = None"
  shows "resolveThemes I (migrateDeprecatedTheme config) h = ([t], h)"
  using assms by (simp add: resolveThemes_def migrateDeprecatedTheme_def)

lemma migrationEvents_migrated:
  assumes "config_theme config = Some t" and "config_themes config = None"
  shows "migrationEvents config = [DeprecatedThemeMigrated t]"
  using assms by (simp add: migrationEvents_def)

lemma themes_constructor:
  "themes (engine (constructor I config h)) =
     (let c = migrateDeprecatedTheme config; r = resolveThemes I c h
      in fst (themesLoop I (resolveConfig I c (snd r) (fst r)) 0 (fst r) (snd r)
                (migrationEvents config)))"
  by (simp add: constructor_unfold Let_def)

lemma events_constructor:
  "events (constructor I config h) =
     (let c = migrateDeprecatedTheme config; r = resolveThemes I c h
      in snd (snd (themesLoop I (resolveConfig I c (snd r) (fst r)) 0 (fst r) (snd r)
                     (migrationEvents config))))"
  by (simp add: constructor_unfold Let_def)

text \<open>
  C6, as amended. When the configuration has the deprecated \<^verbatim>\<open>theme\<close> and no
  \<^verbatim>\<open>themes\<close>, the themes list of the constructed engine has length 1. Its element is
  the supplied theme object, unless \<^verbatim>\<open>customizeTheme\<close> returns a theme for it: then it is
  the theme that \<^verbatim>\<open>customizeTheme\<close> returned. No diagnostic is written during the
  migration: the events of the constructor up to the first call of the contrast pass are the
  migration and, when \<^verbatim>\<open>customizeTheme\<close> is configured, its call for the theme, and nothing
  else. What the contrast pass writes afterwards is not part of the migration.
\<close>

theorem deprecated_theme_becomes_the_themes_list:
  assumes "config_theme config = Some t" and "config_themes config = None"
  shows "length (themes (engine (constructor I config h))) = 1
       \<and> themes (engine (constructor I config h)) =
           [case config_customizeTheme config of
              None \<Rightarrow> t
            | Some f \<Rightarrow> (case fst (f t h) of None \<Rightarrow> t | Some replacement \<Rightarrow> replacement)]
       \<and> takeWhile (\<lambda>ev. \<not> isContrastPass ev) (events (constructor I config h)) =
           DeprecatedThemeMigrated t
           # (case config_customizeTheme config of
                None \<Rightarrow> []
              | Some f \<Rightarrow> [CustomizeThemeCalled t])"
proof -
  let ?c = "migrateDeprecatedTheme config"
  let ?e0 = "resolveConfig I ?c h [t]"
  let ?m = "[DeprecatedThemeMigrated t]"
  let ?s = "customizeStep ?e0 t h ?m"
  have cust: "customizeTheme ?e0 = config_customizeTheme config"
    by (simp add: resolveConfig_def migrate_fields)
  have "themes (engine (constructor I config h)) = fst (themesLoop I ?e0 0 [t] h ?m)"
    by (simp add: themes_constructor Let_def resolveThemes_migrated [OF assms]
          migrationEvents_migrated [OF assms])
  also have "\<dots> = [fst ?s]"
    by (simp add: themesLoop_unfold Let_def)
  finally have th: "themes (engine (constructor I config h)) =
           [case config_customizeTheme config of
              None \<Rightarrow> t
            | Some f \<Rightarrow> (case fst (f t h) of None \<Rightarrow> t | Some replacement \<Rightarrow> replacement)]"
    by (simp add: customizeStep_theme cust)
  have evs: "snd (snd ?s) =
               DeprecatedThemeMigrated t
               # (case config_customizeTheme config of
                    None \<Rightarrow> []
                  | Some f \<Rightarrow> [CustomizeThemeCalled t])"
    by (simp add: customizeStep_events cust)
  have quiet: "\<forall>ev \<in> set (snd (snd ?s)). \<not> isContrastPass ev"
    unfolding evs by (simp split: option.splits)
  have "events (constructor I config h) =
          snd (contrastStep I ?e0 0 (fst ?s) (fst (snd ?s)) (snd (snd ?s)))"
    by (simp add: events_constructor Let_def resolveThemes_migrated [OF assms]
          migrationEvents_migrated [OF assms] themesLoop_unfold)
  then have "takeWhile (\<lambda>ev. \<not> isContrastPass ev) (events (constructor I config h)) =
               snd (snd ?s)"
    using contrastStep_events [OF quiet, of I ?e0 0 "fst ?s" "fst (snd ?s)"] by simp
  then have ev: "takeWhile (\<lambda>ev. \<not> isContrastPass ev) (events (constructor I config h)) =
           DeprecatedThemeMigrated t
           # (case config_customizeTheme config of
                None \<Rightarrow> []
              | Some f \<Rightarrow> [CustomizeThemeCalled t])"
    unfolding evs .
  from th ev show ?thesis by simp
qed

theorem deprecated_theme_becomes_the_themes_list_witness:
  "config_theme deprecatedThemeConfig = Some 1
   \<and> config_themes deprecatedThemeConfig = None
   \<and> themes (engine (constructor exampleImports deprecatedThemeConfig exampleHeap)) = [1]
   \<and> themes (engine deprecatedThemeReplaced) = [3]
   \<and> takeWhile (\<lambda>ev. \<not> isContrastPass ev) (events deprecatedThemeReplaced) =
       [DeprecatedThemeMigrated 1, CustomizeThemeCalled 1]
   \<and> events deprecatedThemeReplaced =
       [DeprecatedThemeMigrated 1,
        CustomizeThemeCalled 1,
        ResolveStyleSettingsCalled 3 0,
        EnsureMinSyntaxHighlightingColorContrastCalled 3 5.5 (Some ''#fff'')]
   \<and> config_theme (emptyConfig\<lparr> config_theme := Some 0 \<rparr>) = Some 0
   \<and> config_themes (emptyConfig\<lparr> config_theme := Some 0 \<rparr>) = None
   \<and> takeWhile (\<lambda>ev. \<not> isContrastPass ev) (events deprecatedBareTheme) =
       [DeprecatedThemeMigrated 0]
   \<and> events deprecatedBareTheme =
       [DeprecatedThemeMigrated 0,
        ResolveStyleSettingsCalled 0 0,
        EnsureMinSyntaxHighlightingColorContrastCalled 0 5.5 None,
        Diagnostic ''no background color, contrast not adjusted'']"
proof -
  have t: "config_theme deprecatedThemeConfig = Some 1"
    and ts: "config_themes deprecatedThemeConfig = None"
    and c: "config_customizeTheme deprecatedThemeConfig = None"
    by (simp_all add: deprecatedThemeConfig_def emptyConfig_def)
  have t': "config_theme (deprecatedThemeConfig\<lparr> config_customizeTheme := Some replaceByDarkCopy \<rparr>)
              = Some 1"
    and ts': "config_themes
                (deprecatedThemeConfig\<lparr> config_customizeTheme := Some replaceByDarkCopy \<rparr>) = None"
    by (simp_all add: deprecatedThemeConfig_def emptyConfig_def)
  have b: "config_theme (emptyConfig\<lparr> config_theme := Some 0 \<rparr>) = Some 0"
    and bs: "config_themes (emptyConfig\<lparr> config_theme := Some 0 \<rparr>) = None"
    and bc: "config_customizeTheme (emptyConfig\<lparr> config_theme := Some 0 \<rparr>) = None"
    by (simp_all add: emptyConfig_def)
  have ev: "events deprecatedThemeReplaced =
       [DeprecatedThemeMigrated 1,
        CustomizeThemeCalled 1,
        ResolveStyleSettingsCalled 3 0,
        EnsureMinSyntaxHighlightingColorContrastCalled 3 5.5 (Some ''#fff'')]"
    by code_simp
  have ev': "events deprecatedBareTheme =
       [DeprecatedThemeMigrated 0,
        ResolveStyleSettingsCalled 0 0,
        EnsureMinSyntaxHighlightingColorContrastCalled 0 5.5 None,
        Diagnostic ''no background color, contrast not adjusted'']"
    by code_simp
  from deprecated_theme_becomes_the_themes_list [OF t ts, of exampleImports exampleHeap] c
  have plain: "themes (engine (constructor exampleImports deprecatedThemeConfig exampleHeap)) = [1]"
    by simp
  note replaced = deprecated_theme_becomes_the_themes_list [OF t' ts', of exampleImports exampleHeap]
  from replaced have themes: "themes (engine deprecatedThemeReplaced) = [3]"
    by (simp add: deprecatedThemeReplaced_def replaceByDarkCopy_def exampleHeap_def)
  from replaced
  have quiet: "takeWhile (\<lambda>ev. \<not> isContrastPass ev) (events deprecatedThemeReplaced) =
       [DeprecatedThemeMigrated 1, CustomizeThemeCalled 1]"
    by (simp add: deprecatedThemeReplaced_def)
  from deprecated_theme_becomes_the_themes_list [OF b bs, of exampleImports "[exampleBare]"] bc
  have quiet': "takeWhile (\<lambda>ev. \<not> isContrastPass ev) (events deprecatedBareTheme) =
       [DeprecatedThemeMigrated 0]"
    by (simp add: deprecatedBareTheme_def)
  from t ts plain themes quiet ev b bs quiet' ev' show ?thesis by (intro conjI)
qed

text \<open>
  C6 as stated fails when \<^verbatim>\<open>customizeTheme\<close> returns a replacement: the deprecated
  \<^verbatim>\<open>theme\<close> is the object 1 of the store, the callback returns a new object, and the
  themes list of the engine is not the list of the supplied theme.
\<close>

theorem deprecated_theme_replaced_counterexample:
  "config_theme (deprecatedThemeConfig\<lparr> config_customizeTheme := Some replaceByDarkCopy \<rparr>) = Some 1
   \<and> config_themes (deprecatedThemeConfig\<lparr> config_customizeTheme := Some replaceByDarkCopy \<rparr>)
       = None
   \<and> themes (engine (constructor exampleImports
                (deprecatedThemeConfig\<lparr> config_customizeTheme := Some replaceByDarkCopy \<rparr>)
                exampleHeap)) \<noteq> [1]"
proof -
  have "themes (engine (constructor exampleImports
                (deprecatedThemeConfig\<lparr> config_customizeTheme := Some replaceByDarkCopy \<rparr>)
                exampleHeap)) = [3]"
    by code_simp
  then show ?thesis by (simp add: deprecatedThemeConfig_def emptyConfig_def)
qed

lemma useDarkModeMediaQuery_constructor:
  "useDarkModeMediaQuery (engine (constructor I config h)) =
     (case config_useDarkModeMediaQuery config of
        None \<Rightarrow> themesAreDarkAndLight (snd (resolveThemes I (migrateDeprecatedTheme config) h))
                  (fst (resolveThemes I (migrateDeprecatedTheme config) h))
      | Some b \<Rightarrow> b)"
  by (simp add: constructor_unfold Let_def resolveConfig_def migrate_fields)

text \<open>
  C4, as amended. When the configuration does not set \<^verbatim>\<open>useDarkModeMediaQuery\<close>, the
  resolved \<^verbatim>\<open>useDarkModeMediaQuery\<close> is true if and only if the themes list resolved from
  the configuration (\<^verbatim>\<open>themes\<close>, else the deprecated \<^verbatim>\<open>theme\<close>, else the two default
  themes), as it is before \<^verbatim>\<open>customizeTheme\<close> and the contrast pass run, has exactly 2
  elements and their two types, read at that moment, differ.
\<close>

theorem default_useDarkModeMediaQuery_from_configured_themes:
  assumes "config_useDarkModeMediaQuery config = None"
  shows "useDarkModeMediaQuery (engine (constructor I config h)) \<longleftrightarrow>
         (let (ts, h0) = resolveThemes I (migrateDeprecatedTheme config) h
          in length ts = 2 \<and> type (h0 ! (ts ! 0)) \<noteq> type (h0 ! (ts ! 1)))"
  using assms
  by (simp add: useDarkModeMediaQuery_constructor themesAreDarkAndLight_def split: prod.splits)

theorem default_useDarkModeMediaQuery_from_configured_themes_witness:
  "config_useDarkModeMediaQuery darkAndLightConfig = None
   \<and> useDarkModeMediaQuery (engine (constructor exampleImports darkAndLightConfig exampleHeap))
   \<and> config_useDarkModeMediaQuery emptyConfig = None
   \<and> useDarkModeMediaQuery (engine (constructor exampleImports emptyConfig []))
   \<and> \<not> useDarkModeMediaQuery
         (engine (constructor exampleImports (emptyConfig\<lparr> config_themes := Some [0, 2] \<rparr>)
            exampleHeap))
   \<and> \<not> useDarkModeMediaQuery
         (engine (constructor exampleImports (emptyConfig\<lparr> config_themes := Some [0, 1, 2] \<rparr>)
            exampleHeap))"
proof -
  have n: "config_useDarkModeMediaQuery darkAndLightConfig = None"
    "config_useDarkModeMediaQuery emptyConfig = None"
    "config_useDarkModeMediaQuery (emptyConfig\<lparr> config_themes := Some [0, 2] \<rparr>) = None"
    "config_useDarkModeMediaQuery (emptyConfig\<lparr> config_themes := Some [0, 1, 2] \<rparr>) = None"
    by (simp_all add: darkAndLightConfig_def emptyConfig_def)
  have r: "resolveThemes exampleImports (migrateDeprecatedTheme darkAndLightConfig) exampleHeap
             = ([0, 1], exampleHeap)"
    "resolveThemes exampleImports (migrateDeprecatedTheme emptyConfig) []
       = ([0, 1], [githubDark exampleImports, githubLight exampleImports])"
    "resolveThemes exampleImports
       (migrateDeprecatedTheme (emptyConfig\<lparr> config_themes := Some [0, 2] \<rparr>)) exampleHeap
       = ([0, 2], exampleHeap)"
    "resolveThemes exampleImports
       (migrateDeprecatedTheme (emptyConfig\<lparr> config_themes := Some [0, 1, 2] \<rparr>)) exampleHeap
       = ([0, 1, 2], exampleHeap)"
    by (simp_all add: resolveThemes_def migrateDeprecatedTheme_def darkAndLightConfig_def
          emptyConfig_def alloc_def)
  have ty: "type (exampleHeap ! 0) = Dark" "type (exampleHeap ! 1) = Light"
    "type (exampleHeap ! 2) = Dark"
    "type (githubDark exampleImports) = Dark" "type (githubLight exampleImports) = Light"
    by (simp_all add: exampleHeap_def exampleDark_def exampleLight_def exampleDark2_def
          exampleImports_def)
  from default_useDarkModeMediaQuery_from_configured_themes
         [OF n(1), of exampleImports exampleHeap]
       default_useDarkModeMediaQuery_from_configured_themes [OF n(2), of exampleImports "[]"]
       default_useDarkModeMediaQuery_from_configured_themes
         [OF n(3), of exampleImports exampleHeap]
       default_useDarkModeMediaQuery_from_configured_themes
         [OF n(4), of exampleImports exampleHeap]
       n r ty
  show ?thesis by simp
qed

text \<open>
  C4 as stated fails for the themes list of the constructed engine: with a dark and a light
  theme configured and a \<^verbatim>\<open>customizeTheme\<close> that replaces every theme by a dark one,
  \<^verbatim>\<open>useDarkModeMediaQuery\<close> is true while the two themes of the engine are both dark.
\<close>

theorem default_useDarkModeMediaQuery_counterexample:
  "config_useDarkModeMediaQuery
     (darkAndLightConfig\<lparr> config_customizeTheme := Some replaceByDarkCopy \<rparr>) = None
   \<and> \<not> (useDarkModeMediaQuery (engine replacedThemes) \<longleftrightarrow>
          length (themes (engine replacedThemes)) = 2
          \<and> type (heap_after replacedThemes ! (themes (engine replacedThemes) ! 0))
              \<noteq> type (heap_after replacedThemes ! (themes (engine replacedThemes) ! 1)))"
proof -
  have u: "useDarkModeMediaQuery (engine replacedThemes)" by code_simp
  have ts: "themes (engine replacedThemes) = [3, 4]" by code_simp
  have t3: "type (heap_after replacedThemes ! 3) = Dark"
    and t4: "type (heap_after replacedThemes ! 4) = Dark"
    by code_simp+
  from u ts t3 t4 show ?thesis
    by (simp add: darkAndLightConfig_def emptyConfig_def)
qed

lemma migrate_customize:
  "migrateDeprecatedTheme (config\<lparr> config_customizeTheme := c \<rparr>) =
     (migrateDeprecatedTheme config)\<lparr> config_customizeTheme := c \<rparr>"
  by (simp add: migrateDeprecatedTheme_def split: option.splits)

lemma resolveThemes_customize:
  "resolveThemes I (config\<lparr> config_customizeTheme := c \<rparr>) h = resolveThemes I config h"
  by (simp add: resolveThemes_def)

text \<open>
  C10. When the configuration does not set \<^verbatim>\<open>useDarkModeMediaQuery\<close>, its resolved value
  is computed from the themes list resolved from the configuration and the types the themes
  have before any \<^verbatim>\<open>customizeTheme\<close> call; whatever callback \<^verbatim>\<open>customizeTheme\<close> is, or
  none, the resolved value is the same.
\<close>

theorem customizeTheme_does_not_affect_default_media_query:
  assumes "config_useDarkModeMediaQuery config = None"
  shows "useDarkModeMediaQuery (engine (constructor I (config\<lparr> config_customizeTheme := c \<rparr>) h))
           = themesAreDarkAndLight (snd (resolveThemes I (migrateDeprecatedTheme config) h))
               (fst (resolveThemes I (migrateDeprecatedTheme config) h))
       \<and> useDarkModeMediaQuery (engine (constructor I (config\<lparr> config_customizeTheme := c \<rparr>) h))
           = useDarkModeMediaQuery (engine (constructor I (config\<lparr> config_customizeTheme := c' \<rparr>) h))"
  using assms
  by (simp add: useDarkModeMediaQuery_constructor migrate_customize resolveThemes_customize)

theorem customizeTheme_does_not_affect_default_media_query_witness:
  "config_useDarkModeMediaQuery darkAndLightConfig = None
   \<and> useDarkModeMediaQuery (engine replacedThemes)
   \<and> useDarkModeMediaQuery
       (engine (constructor exampleImports
          (darkAndLightConfig\<lparr> config_customizeTheme := None \<rparr>) exampleHeap))
   \<and> themes (engine replacedThemes) = [3, 4]
   \<and> map (\<lambda>t. type (heap_after replacedThemes ! t)) (themes (engine replacedThemes)) = [Dark, Dark]"
proof -
  have n: "config_useDarkModeMediaQuery darkAndLightConfig = None"
    by (simp add: darkAndLightConfig_def emptyConfig_def)
  have u: "useDarkModeMediaQuery
       (engine (constructor exampleImports
          (darkAndLightConfig\<lparr> config_customizeTheme := None \<rparr>) exampleHeap))"
    by code_simp
  have ts: "themes (engine replacedThemes) = [3, 4]" by code_simp
  have ty: "map (\<lambda>t. type (heap_after replacedThemes ! t)) (themes (engine replacedThemes))
              = [Dark, Dark]"
    by code_simp
  from customizeTheme_does_not_affect_default_media_query
         [OF n, of exampleImports "Some replaceByDarkCopy" exampleHeap None] u
  have "useDarkModeMediaQuery (engine replacedThemes)"
    unfolding replacedThemes_def by blast
  with n u ts ty show ?thesis by simp
qed

end
